theory Spec2Isabelle
  imports Main
begin

section \<open>JavaScript values used by the two commands\<close>

text \<open>
  The commands \<open>merged\<close> (src/commands/merged.ts) and \<open>uptodate\<close>
  (src/commands/uptodate.ts) inspect every Git working copy below a directory. Both are
  written against \<open>child_process.execSync\<close>: a call returns the standard output of the
  command when it exits with status 0 and throws otherwise (non-zero status, or the
  30 s timeout of the fetch). An outcome is therefore a sum: \<open>Inl msg\<close> is the thrown
  error (its text), \<open>Inr out\<close> the standard output.
\<close>

type_synonym exec_result = "string + string"

text \<open>
  A JavaScript number as the code meets it: an integer, or \<open>NaN\<close> (the result of
  \<open>parseInt\<close> on a string with no leading digits). Infinities and fractions do not arise
  from \<open>parseInt\<close> on the short digit strings handled here.
\<close>

datatype jsnum = NaN | Num int

fun js_add :: "jsnum \<Rightarrow> jsnum \<Rightarrow> jsnum" where
  "js_add (Num a) (Num b) = Num (a + b)"
| "js_add _ _ = NaN"

fun js_lt :: "jsnum \<Rightarrow> jsnum \<Rightarrow> bool" where
  "js_lt (Num a) (Num b) = (a < b)"
| "js_lt _ _ = False"

fun js_min :: "jsnum \<Rightarrow> jsnum \<Rightarrow> jsnum" where
  "js_min (Num a) (Num b) = Num (min a b)"
| "js_min _ _ = NaN"

text \<open>\<open>x || 0\<close> on a number: \<open>NaN\<close> and \<open>0\<close> are falsy, every other number is kept.\<close>

fun or_zero :: "jsnum \<Rightarrow> int" where
  "or_zero NaN = 0"
| "or_zero (Num n) = n"

text \<open>
  \<open>String.prototype.trim\<close>: white space is removed at both ends. A \<open>string\<close> is a list
  of bytes, so the ASCII white space characters are the ones modelled (space, tab, line
  feed, vertical tab, form feed, carriage return).
\<close>

definition is_space :: "char \<Rightarrow> bool" where
  "is_space c = (c = CHR '' '' \<or> c = CHR 0x09 \<or> c = CHR 0x0A \<or> c = CHR 0x0B
                \<or> c = CHR 0x0C \<or> c = CHR 0x0D)"

definition trim :: "string \<Rightarrow> string" where
  "trim s = rev (dropWhile is_space (rev (dropWhile is_space s)))"

text \<open>
  \<open>parseInt(s)\<close> with no radix: leading white space is skipped, a sign is read, a
  \<open>0x\<close>/\<open>0X\<close> prefix selects radix 16 (radix 10 otherwise), and the longest prefix of
  digits of that radix is the value; when that prefix is empty the result is \<open>NaN\<close>.
\<close>

definition digit_value :: "char \<Rightarrow> nat option" where
  "digit_value c =
     (let n = (of_char c :: nat) in
      if 48 \<le> n \<and> n \<le> 57 then Some (n - 48)
      else if 97 \<le> n \<and> n \<le> 122 then Some (n - 87)
      else if 65 \<le> n \<and> n \<le> 90 then Some (n - 55)
      else None)"

definition radix_digit :: "nat \<Rightarrow> char \<Rightarrow> nat option" where
  "radix_digit R c =
     (case digit_value c of
        None \<Rightarrow> None
      | Some d \<Rightarrow> if d < R then Some d else None)"

definition digits_value :: "nat \<Rightarrow> string \<Rightarrow> nat" where
  "digits_value R z = foldl (\<lambda>a c. a * R + (case radix_digit R c of Some d \<Rightarrow> d | None \<Rightarrow> 0)) 0 z"

fun strip_sign :: "string \<Rightarrow> int \<times> string" where
  "strip_sign [] = (1, [])"
| "strip_sign (c # t) =
     (if c = CHR ''-'' then (- 1, t) else if c = CHR ''+'' then (1, t) else (1, c # t))"

fun strip_prefix :: "string \<Rightarrow> nat \<times> string" where
  "strip_prefix (c # x # t) =
     (if c = CHR ''0'' \<and> (x = CHR ''x'' \<or> x = CHR ''X'') then (16, t) else (10, c # x # t))"
| "strip_prefix s = (10, s)"

definition parseInt :: "string \<Rightarrow> jsnum" where
  "parseInt s =
     (let (sign, s2) = strip_sign (dropWhile is_space s);
          (R, s3) = strip_prefix s2;
          z = takeWhile (\<lambda>c. radix_digit R c \<noteq> None) s3
      in if z = [] then NaN else Num (sign * int (digits_value R z)))"

text \<open>
  \<open>Array.prototype.slice(start, end)\<close>: a negative index counts from the end, every
  index is clamped to the array, and \<open>NaN\<close> is read as 0.
\<close>

fun to_integer :: "jsnum \<Rightarrow> int" where
  "to_integer NaN = 0"
| "to_integer (Num k) = k"

definition relative_index :: "int \<Rightarrow> int \<Rightarrow> int" where
  "relative_index n k = (if k < 0 then max (n + k) 0 else min k n)"

definition slice :: "'a list \<Rightarrow> jsnum \<Rightarrow> jsnum \<Rightarrow> 'a list" where
  "slice xs start end =
     (let n = int (length xs);
          k = relative_index n (to_integer start);
          final = relative_index n (to_integer end)
      in take (nat (final - k)) (drop (nat k) xs))"

text \<open>\<open>path.join(targetDir, projectName)\<close>; normalisation of the joined path is not modelled.\<close>

definition path_join :: "string \<Rightarrow> string \<Rightarrow> string" where
  "path_join dir item = dir @ ''/'' @ item"

section \<open>Git as the commands see it\<close>

text \<open>
  The command lines the two files pass to \<open>execSync\<close>, with the interpolated names as
  arguments:
  \<^item> \<open>FetchAllPrune\<close>: \<^verbatim>\<open>git fetch --all --prune\<close> (timeout 30000 ms);
  \<^item> \<open>RevParseVerify r\<close>: \<^verbatim>\<open>git rev-parse --verify r\<close>;
  \<^item> \<open>RevParse r\<close>: \<^verbatim>\<open>git rev-parse r\<close>;
  \<^item> \<open>LogDate c\<close>: \<^verbatim>\<open>git log -1 --format="%ci" c\<close>;
  \<^item> \<open>MergeBaseIsAncestor a b\<close>: \<^verbatim>\<open>git merge-base --is-ancestor a b\<close>, which exits
    with status 0 exactly when \<open>a\<close> is an ancestor of \<open>b\<close>;
  \<^item> \<open>RevListCount a b\<close>: \<^verbatim>\<open>git rev-list --count a..b\<close>, the number of commits
    reachable from \<open>b\<close> and not from \<open>a\<close>;
  \<^item> \<open>LogMergesGrep n b\<close>: \<^verbatim>\<open>git log --oneline --merges --grep="Merge.*n" b | head -1\<close>.

  Git itself is not part of the repository: a working copy is a parameter, the function
  from command lines to outcomes that the job observes in its directory. The fetch is the
  first command of a job, so the outcomes of the others are those after the fetch.
  A \<open>world\<close> gives the working copy found at each path (\<open>cwd\<close>).
\<close>

datatype cmd =
    FetchAllPrune
  | RevParseVerify string
  | RevParse string
  | LogDate string
  | MergeBaseIsAncestor string string
  | RevListCount string string
  | LogMergesGrep string string

type_synonym git = "cmd \<Rightarrow> exec_result"

type_synonym world = "string \<Rightarrow> git"

text \<open>The template \<open>origin/${name}\<close>.\<close>

definition origin :: "string \<Rightarrow> string" where
  "origin n = ''origin/'' @ n"

text \<open>
  The \<open>error\<close> field is a message built from a fixed prefix and the thrown error; the
  constructor stands for the prefix: \<open>FetchFailed\<close> for the prefix written in the handler
  of the fetch, \<open>CheckFailed\<close> for the one of the handler around the ancestry block,
  \<open>ProcessFailed\<close> for the one of the outermost handler of \<open>processProject\<close>.
\<close>

datatype failure = FetchFailed string | CheckFailed string | ProcessFailed string

text \<open>
  The fields of commander's option object that the jobs and the scheduling loop read:
  \<open>--no-fetch\<close> clears \<open>fetch\<close>; \<open>parallel\<close> is a string (default \<open>'5'\<close>). The field
  \<open>options.baseBranch\<close> is handed to \<open>processProject\<close> as its own argument.
\<close>

record options =
  fetch :: bool
  parallel :: string

section \<open>Result records\<close>

text \<open>
  \<open>MergeCheckResult\<close> and \<open>MasterMergeCheckResult\<close> share six fields; they are the
  common part here, extended by each command's own fields. An optional field
  (\<open>error?\<close>, \<open>mergeCommit?\<close>, ...) is an \<open>option\<close>, \<open>None\<close> when it was never assigned.
\<close>

record CheckResult =
  name :: string
  path :: string
  branchExists :: bool
  masterExists :: bool
  error :: "failure option"
  fetchSuccess :: bool

record MergeCheckResult = CheckResult +
  isMerged :: bool
  mergeCommit :: "string option"
  mergeDate :: "string option"

record MasterMergeCheckResult = CheckResult +
  hasMasterChanges :: bool
  isUpToDate :: bool
  behindCommits :: int
  lastMasterCommit :: "string option"
  lastBranchCommit :: "string option"
  lastMasterDate :: "string option"
  lastBranchDate :: "string option"

section \<open>One inspection job\<close>

subsection \<open>Steps shared by both commands\<close>

text \<open>
  The fetch (merged.ts lines 122-137, uptodate.ts lines 128-143). Each step returns the
  updated result together with the commands it issued, in order.
\<close>

definition fetch_step ::
  "git \<Rightarrow> options \<Rightarrow> 'a CheckResult_scheme \<Rightarrow> 'a CheckResult_scheme \<times> cmd list" where
  "fetch_step g opts result =
     (if fetch opts then
        (case g FetchAllPrune of
           Inr _ \<Rightarrow> (result\<lparr>fetchSuccess := True\<rparr>, [FetchAllPrune])
         | Inl fetchError \<Rightarrow>
             (result\<lparr>fetchSuccess := False, error := Some (FetchFailed fetchError)\<rparr>,
              [FetchAllPrune]))
      else (result\<lparr>fetchSuccess := True\<rparr>, []))"

text \<open>
  The existence check of one branch name (merged.ts lines 139-159 and 161-181,
  uptodate.ts lines 145-165 and 167-187: the same text for \<open>baseBranch\<close> and for
  \<open>branchName\<close>). It yields the existence flag and the value of \<open>actualMasterRef\<close>
  (\<open>actualBranchRef\<close>), which was initialised to the requested name.
\<close>

definition resolve_ref :: "git \<Rightarrow> string \<Rightarrow> (bool \<times> string) \<times> cmd list" where
  "resolve_ref g refName =
     (case g (RevParseVerify refName) of
        Inr _ \<Rightarrow> ((True, refName), [RevParseVerify refName])
      | Inl _ \<Rightarrow>
          (case g (RevParseVerify (origin refName)) of
             Inr _ \<Rightarrow> ((True, origin refName),
                       [RevParseVerify refName, RevParseVerify (origin refName)])
           | Inl _ \<Rightarrow> ((False, refName),
                       [RevParseVerify refName, RevParseVerify (origin refName)])))"

subsection \<open>\<open>uptodate\<close>: does the branch contain the base branch?\<close>

text \<open>The two date lookups (uptodate.ts lines 208-235); a failure is ignored.\<close>

definition dates_uptodate ::
  "git \<Rightarrow> string \<Rightarrow> string \<Rightarrow> MasterMergeCheckResult \<Rightarrow> MasterMergeCheckResult \<times> cmd list" where
  "dates_uptodate g masterCommit branchCommit result =
     (let r1 = (case g (LogDate masterCommit) of
                  Inr out \<Rightarrow> result\<lparr>lastMasterDate := Some (trim out)\<rparr>
                | Inl _ \<Rightarrow> result);
          r2 = (case g (LogDate branchCommit) of
                  Inr out \<Rightarrow> r1\<lparr>lastBranchDate := Some (trim out)\<rparr>
                | Inl _ \<Rightarrow> r1)
      in (r2, [LogDate masterCommit, LogDate branchCommit]))"

text \<open>
  The ancestry test and the count of missing commits (uptodate.ts lines 237-264). The
  count is asked for \<open>branchName..baseBranch\<close>, the names as requested.
\<close>

definition ancestry_uptodate ::
  "git \<Rightarrow> string \<Rightarrow> string \<Rightarrow> string \<Rightarrow> string \<Rightarrow> MasterMergeCheckResult
     \<Rightarrow> MasterMergeCheckResult \<times> cmd list" where
  "ancestry_uptodate g branchName baseBranch masterCommit branchCommit result =
     (case g (MergeBaseIsAncestor masterCommit branchCommit) of
        Inr _ \<Rightarrow>
          (result\<lparr>isUpToDate := True, hasMasterChanges := False\<rparr>,
           [MergeBaseIsAncestor masterCommit branchCommit])
      | Inl _ \<Rightarrow>
          (case g (RevListCount branchName baseBranch) of
             Inr behindCount \<Rightarrow>
               (result\<lparr>isUpToDate := False, hasMasterChanges := True,
                       behindCommits := or_zero (parseInt (trim behindCount))\<rparr>,
                [MergeBaseIsAncestor masterCommit branchCommit,
                 RevListCount branchName baseBranch])
           | Inl _ \<Rightarrow>
               (result\<lparr>isUpToDate := False, hasMasterChanges := True, behindCommits := 0\<rparr>,
                [MergeBaseIsAncestor masterCommit branchCommit,
                 RevListCount branchName baseBranch])))"

text \<open>
  The block run when both names exist (uptodate.ts lines 190-269). An error of either
  \<open>git rev-parse\<close> leaves the block through its handler, which sets \<open>error\<close>.
\<close>

definition check_uptodate ::
  "git \<Rightarrow> string \<Rightarrow> string \<Rightarrow> string \<Rightarrow> string \<Rightarrow> MasterMergeCheckResult
     \<Rightarrow> MasterMergeCheckResult \<times> cmd list" where
  "check_uptodate g branchName baseBranch actualBranchRef actualMasterRef result =
     (case g (RevParse actualMasterRef) of
        Inl e \<Rightarrow> (result\<lparr>error := Some (CheckFailed e)\<rparr>, [RevParse actualMasterRef])
      | Inr out1 \<Rightarrow>
          (case g (RevParse actualBranchRef) of
             Inl e \<Rightarrow> (result\<lparr>error := Some (CheckFailed e)\<rparr>,
                       [RevParse actualMasterRef, RevParse actualBranchRef])
           | Inr out2 \<Rightarrow>
               (let masterCommit = trim out1;
                    branchCommit = trim out2;
                    r1 = result\<lparr>lastMasterCommit := Some masterCommit,
                                 lastBranchCommit := Some branchCommit\<rparr>;
                    (r2, t2) = dates_uptodate g masterCommit branchCommit r1;
                    (r3, t3) = ancestry_uptodate g branchName baseBranch
                                 masterCommit branchCommit r2
                in (r3, [RevParse actualMasterRef, RevParse actualBranchRef] @ t2 @ t3))))"

text \<open>
  \<open>processProject\<close> of uptodate.ts (lines 104-276). Every statement of the outer
  \<open>try\<close> that can throw stands inside a handler of its own, so the outermost handler
  (\<open>ProcessFailed\<close>) has no branch here.
\<close>

definition processProject_uptodate ::
  "world \<Rightarrow> string \<Rightarrow> string \<Rightarrow> string \<Rightarrow> string \<Rightarrow> options
     \<Rightarrow> MasterMergeCheckResult \<times> cmd list" where
  "processProject_uptodate w projectName targetDir branchName baseBranch opts =
     (let projectPath = path_join targetDir projectName;
          g = w projectPath;
          result = \<lparr>name = projectName, path = projectPath,
                    branchExists = False, masterExists = False,
                    error = None, fetchSuccess = False,
                    hasMasterChanges = False, isUpToDate = False, behindCommits = 0,
                    lastMasterCommit = None, lastBranchCommit = None,
                    lastMasterDate = None, lastBranchDate = None\<rparr>;
          (r1, t1) = fetch_step g opts result;
          ((mExists, actualMasterRef), t2) = resolve_ref g baseBranch;
          ((bExists, actualBranchRef), t3) = resolve_ref g branchName;
          r3 = r1\<lparr>masterExists := mExists, branchExists := bExists\<rparr>
      in if branchExists r3 \<and> masterExists r3 then
           (let (r4, t4) = check_uptodate g branchName baseBranch
                             actualBranchRef actualMasterRef r3
            in (r4, t1 @ t2 @ t3 @ t4))
         else (r3, t1 @ t2 @ t3))"

subsection \<open>\<open>merged\<close>: is the branch merged into the base branch?\<close>

text \<open>
  The search for the merge commit (merged.ts lines 208-244), run after a positive
  ancestry test. \<open>mergeInfo.split(' ')[0]\<close> is the text before the first space. Every
  failure is ignored.
\<close>

definition merge_info ::
  "git \<Rightarrow> string \<Rightarrow> string \<Rightarrow> MergeCheckResult \<Rightarrow> MergeCheckResult \<times> cmd list" where
  "merge_info g branchName baseBranch result =
     (case g (LogMergesGrep branchName baseBranch) of
        Inl _ \<Rightarrow> (result, [LogMergesGrep branchName baseBranch])
      | Inr out \<Rightarrow>
          (let mergeInfo = trim out in
           if mergeInfo \<noteq> [] then
             (let part0 = takeWhile (\<lambda>c. c \<noteq> CHR '' '') mergeInfo;
                  r1 = (if part0 \<noteq> [] then result\<lparr>mergeCommit := Some part0\<rparr> else result)
              in case mergeCommit r1 of
                   None \<Rightarrow> (r1, [LogMergesGrep branchName baseBranch])
                 | Some c \<Rightarrow>
                     if c \<noteq> [] then
                       (case g (LogDate c) of
                          Inr d \<Rightarrow> (r1\<lparr>mergeDate := Some (trim d)\<rparr>,
                                    [LogMergesGrep branchName baseBranch, LogDate c])
                        | Inl _ \<Rightarrow> (r1, [LogMergesGrep branchName baseBranch, LogDate c]))
                     else (r1, [LogMergesGrep branchName baseBranch]))
           else (result, [LogMergesGrep branchName baseBranch])))"

text \<open>
  The block run when both names exist (merged.ts lines 184-253). There is no count of
  commits in this command: a negative ancestry test only clears \<open>isMerged\<close>.
\<close>

definition check_merged ::
  "git \<Rightarrow> string \<Rightarrow> string \<Rightarrow> string \<Rightarrow> string \<Rightarrow> MergeCheckResult
     \<Rightarrow> MergeCheckResult \<times> cmd list" where
  "check_merged g branchName baseBranch actualBranchRef actualMasterRef result =
     (case g (RevParse actualBranchRef) of
        Inl e \<Rightarrow> (result\<lparr>error := Some (CheckFailed e)\<rparr>, [RevParse actualBranchRef])
      | Inr out1 \<Rightarrow>
          (case g (RevParse actualMasterRef) of
             Inl e \<Rightarrow> (result\<lparr>error := Some (CheckFailed e)\<rparr>,
                       [RevParse actualBranchRef, RevParse actualMasterRef])
           | Inr out2 \<Rightarrow>
               (let branchCommit = trim out1;
                    masterCommit = trim out2
                in case g (MergeBaseIsAncestor branchCommit masterCommit) of
                     Inr _ \<Rightarrow>
                       (let (r2, t2) = merge_info g branchName baseBranch
                                         (result\<lparr>isMerged := True\<rparr>)
                        in (r2, [RevParse actualBranchRef, RevParse actualMasterRef,
                                 MergeBaseIsAncestor branchCommit masterCommit] @ t2))
                   | Inl _ \<Rightarrow>
                       (result\<lparr>isMerged := False\<rparr>,
                        [RevParse actualBranchRef, RevParse actualMasterRef,
                         MergeBaseIsAncestor branchCommit masterCommit]))))"

text \<open>\<open>processProject\<close> of merged.ts (lines 100-260).\<close>

definition processProject_merged ::
  "world \<Rightarrow> string \<Rightarrow> string \<Rightarrow> string \<Rightarrow> string \<Rightarrow> options
     \<Rightarrow> MergeCheckResult \<times> cmd list" where
  "processProject_merged w projectName targetDir branchName baseBranch opts =
     (let projectPath = path_join targetDir projectName;
          g = w projectPath;
          result = \<lparr>name = projectName, path = projectPath,
                    branchExists = False, masterExists = False,
                    error = None, fetchSuccess = False,
                    isMerged = False, mergeCommit = None, mergeDate = None\<rparr>;
          (r1, t1) = fetch_step g opts result;
          ((mExists, actualMasterRef), t2) = resolve_ref g baseBranch;
          ((bExists, actualBranchRef), t3) = resolve_ref g branchName;
          r3 = r1\<lparr>masterExists := mExists, branchExists := bExists\<rparr>
      in if branchExists r3 \<and> masterExists r3 then
           (let (r4, t4) = check_merged g branchName baseBranch
                             actualBranchRef actualMasterRef r3
            in (r4, t1 @ t2 @ t3 @ t4))
         else (r3, t1 @ t2 @ t3))"

section \<open>The scheduling loop\<close>

text \<open>
  The class \<open>ProgressBar\<close> (utils/progressBar.ts), without its rendering: \<open>update\<close>
  stores \<open>Math.min(current, this.total)\<close>.
\<close>

record ProgressBar =
  current :: jsnum
  total :: nat

definition createProgressBar :: "nat \<Rightarrow> ProgressBar" where
  "createProgressBar n = \<lparr>current = Num 0, total = n\<rparr>"

definition update :: "ProgressBar \<Rightarrow> jsnum \<Rightarrow> ProgressBar" where
  "update bar c = bar\<lparr>current := js_min c (Num (int (total bar)))\<rparr>"

text \<open>
  The state of the loop of the command action (merged.ts lines 77-89, uptodate.ts lines
  81-93): the array \<open>results\<close>, the progress bar, and a history with one entry for every
  turn of the loop: the batch it ran and the value it passed to \<open>progressBar.update\<close>.

  \<open>processProject\<close> is declared \<open>async\<close> but awaits nothing: every command runs through
  \<open>execSync\<close>, so each call of \<open>batch.map\<close> runs its job to the end before the next one
  starts, and \<open>Promise.all\<close> returns the results in the order of the batch.
\<close>

record 'r run_state =
  results :: "'r list"
  progressBar :: ProgressBar
  history :: "(string list \<times> jsnum) list"

definition wave_step ::
  "(string \<Rightarrow> 'r) \<Rightarrow> jsnum \<Rightarrow> string list \<Rightarrow> jsnum \<Rightarrow> 'r run_state \<Rightarrow> 'r run_state" where
  "wave_step job par projectDirs i st =
     (let batch = slice projectDirs i (js_add i par);
          batchResults = map job batch;
          processed = js_min (js_add i par) (Num (int (length projectDirs)))
      in \<lparr>results = results st @ batchResults,
          progressBar = update (progressBar st) processed,
          history = history st @ [(batch, processed)]\<rparr>)"

text \<open>
  \<open>for (let i = 0; i < projectDirs.length; i += parallel)\<close>. Nothing bounds the number of
  turns when \<open>parallel\<close> is not positive, so the loop is a partial function: \<open>None\<close> is
  a loop that never ends.
\<close>

partial_function (option) wave_loop ::
  "(string \<Rightarrow> 'r) \<Rightarrow> jsnum \<Rightarrow> string list \<Rightarrow> jsnum \<Rightarrow> 'r run_state \<Rightarrow> 'r run_state option" where
  "wave_loop job par projectDirs i st =
     (if js_lt i (Num (int (length projectDirs)))
      then wave_loop job par projectDirs (js_add i par) (wave_step job par projectDirs i st)
      else Some st)"

declare wave_loop.simps [code]

definition run_waves :: "(string \<Rightarrow> 'r) \<Rightarrow> options \<Rightarrow> string list \<Rightarrow> 'r run_state option" where
  "run_waves job opts projectDirs =
     wave_loop job (parseInt (parallel opts)) projectDirs (Num 0)
       \<lparr>results = [], progressBar = createProgressBar (length projectDirs), history = []\<rparr>"

text \<open>
  The two command actions from the list of discovered projects on (\<open>projectDirs\<close>) up to
  the call of \<open>displayResults\<close>.
\<close>

definition mergedCommand ::
  "world \<Rightarrow> string \<Rightarrow> string list \<Rightarrow> string \<Rightarrow> string \<Rightarrow> options
     \<Rightarrow> MergeCheckResult run_state option" where
  "mergedCommand w targetDir projectDirs branchName baseBranch opts =
     run_waves (\<lambda>projectName.
         fst (processProject_merged w projectName targetDir branchName baseBranch opts))
       opts projectDirs"

definition uptodateCommand ::
  "world \<Rightarrow> string \<Rightarrow> string list \<Rightarrow> string \<Rightarrow> string \<Rightarrow> options
     \<Rightarrow> MasterMergeCheckResult run_state option" where
  "uptodateCommand w targetDir projectDirs branchName baseBranch opts =
     run_waves (\<lambda>projectName.
         fst (processProject_uptodate w projectName targetDir branchName baseBranch opts))
       opts projectDirs"

section \<open>Notions used to state the properties\<close>

text \<open>A command that exited with status 0.\<close>

definition succeeded :: "exec_result \<Rightarrow> bool" where
  "succeeded x = (case x of Inr _ \<Rightarrow> True | Inl _ \<Rightarrow> False)"

text \<open>
  The ancestry relation of a working copy, as Git answers it: \<open>a\<close> is an ancestor of \<open>b\<close>
  when \<^verbatim>\<open>git merge-base --is-ancestor a b\<close> exits with status 0.
\<close>

definition is_ancestor :: "git \<Rightarrow> string \<Rightarrow> string \<Rightarrow> bool" where
  "is_ancestor g a b = succeeded (g (MergeBaseIsAncestor a b))"

text \<open>
  The commit a job obtains for a requested name: the name is resolved (local name, then
  \<open>origin/\<close> name), and the resolved name is handed to \<^verbatim>\<open>git rev-parse\<close>, whose
  trimmed output is the commit hash.
\<close>

definition resolved_commit :: "git \<Rightarrow> string \<Rightarrow> string option" where
  "resolved_commit g refName =
     (let ((ex, actual), _) = resolve_ref g refName
      in if ex then (case g (RevParse actual) of Inr out \<Rightarrow> Some (trim out) | Inl _ \<Rightarrow> None)
         else None)"

text \<open>What the fetch step leaves in the \<open>error\<close> field.\<close>

definition fetch_failure :: "git \<Rightarrow> options \<Rightarrow> failure option" where
  "fetch_failure g opts =
     (if fetch opts
      then (case g FetchAllPrune of Inl e \<Rightarrow> Some (FetchFailed e) | Inr _ \<Rightarrow> None)
      else None)"

text \<open>The commands that compute ancestry or the number of missing commits.\<close>

fun ancestry_cmd :: "cmd \<Rightarrow> bool" where
  "ancestry_cmd (MergeBaseIsAncestor _ _) = True"
| "ancestry_cmd (RevListCount _ _) = True"
| "ancestry_cmd _ = False"

text \<open>
  The output of \<^verbatim>\<open>git rev-list --count\<close> is a line of decimal digits: after trimming,
  every character is one of \<open>0\<close>, ..., \<open>9\<close>.
\<close>

definition is_digit :: "char \<Rightarrow> bool" where
  "is_digit c = (48 \<le> (of_char c :: nat) \<and> (of_char c :: nat) \<le> 57)"

definition prints_count :: "exec_result \<Rightarrow> bool" where
  "prints_count x = (case x of Inr out \<Rightarrow> list_all is_digit (trim out) | Inl _ \<Rightarrow> True)"

text \<open>
  A history is cumulative from \<open>k\<close> when every turn reports the number of projects
  handled so far: \<open>k\<close> plus the sizes of all batches up to and including its own.
\<close>

fun cumulative :: "nat \<Rightarrow> (string list \<times> jsnum) list \<Rightarrow> bool" where
  "cumulative k [] = True"
| "cumulative k ((batch, c) # h) =
     (c = Num (int (k + length batch)) \<and> cumulative (k + length batch) h)"

text \<open>
  What a finished run has reported: the batches of the history are the discovered
  projects, cut in order into non-empty waves of at most \<open>p\<close> projects, so that there
  are \<open>\<lceil>n / p\<rceil>\<close> waves and as many calls of \<open>update\<close>; every call reported the number of
  projects handled so far, the reported values never decrease, the last one is the
  number of projects, and the bar ends at \<open>current = total\<close>.
\<close>

definition progress_reported :: "int \<Rightarrow> string list \<Rightarrow> 'r run_state \<Rightarrow> bool" where
  "progress_reported p dirs st =
     (concat (map fst (history st)) = dirs
      \<and> (\<forall>x\<in>set (history st). fst x \<noteq> [] \<and> int (length (fst x)) \<le> p)
      \<and> int (length (history st)) = (int (length dirs) + p - 1) div p
      \<and> cumulative 0 (history st)
      \<and> sorted (map (\<lambda>x. to_integer (snd x)) (history st))
      \<and> (dirs \<noteq> [] \<longrightarrow> history st \<noteq> []
            \<and> snd (last (history st)) = Num (int (length dirs)))
      \<and> total (progressBar st) = length dirs
      \<and> current (progressBar st) = Num (int (length dirs)))"

text \<open>The invariant of the loop at the head of a turn, \<open>i\<close> being the loop variable.\<close>

definition wave_inv ::
  "(string \<Rightarrow> 'r) \<Rightarrow> int \<Rightarrow> string list \<Rightarrow> int \<Rightarrow> 'r run_state \<Rightarrow> bool" where
  "wave_inv job p dirs i st =
     (0 \<le> i
      \<and> (i = 0 \<or> i - p < int (length dirs))
      \<and> i = int (length (history st)) * p
      \<and> results st = map job (take (nat i) dirs)
      \<and> concat (map fst (history st)) = take (nat i) dirs
      \<and> cumulative 0 (history st)
      \<and> (\<forall>x\<in>set (history st). fst x \<noteq> [] \<and> int (length (fst x)) \<le> p)
      \<and> total (progressBar st) = length dirs
      \<and> current (progressBar st) = Num (min i (int (length dirs))))"

section \<open>Example working copies\<close>

text \<open>
  Working copies given by a table of outcomes; a command that is not in the table fails.
  \<open>line s\<close> is \<open>s\<close> followed by a line feed, as Git prints it.
\<close>

definition line :: "string \<Rightarrow> string" where
  "line s = s @ [CHR 0x0A]"

definition table_git :: "(cmd \<times> exec_result) list \<Rightarrow> git" where
  "table_git t c = (case map_of t c of Some r \<Rightarrow> r | None \<Rightarrow> Inl ''exit status 128'')"

text \<open>
  \<open>repoA\<close>: local branch \<open>feature/x\<close> at commit \<open>c1\<close>, \<open>master\<close> at \<open>c2\<close>, and \<open>c1\<close> is
  an ancestor of \<open>c2\<close> (merged by the merge commit \<open>c2\<close>); \<open>master\<close> is two commits ahead.
\<close>

definition repoA :: git where
  "repoA = table_git
     [(FetchAllPrune, Inr []),
      (RevParseVerify ''master'', Inr (line ''c2'')),
      (RevParseVerify ''feature/x'', Inr (line ''c1'')),
      (RevParse ''master'', Inr (line ''c2'')),
      (RevParse ''feature/x'', Inr (line ''c1'')),
      (LogDate ''c1'', Inr (line ''2024-05-01 10:00:00 +0800'')),
      (LogDate ''c2'', Inr (line ''2024-05-03 16:30:00 +0800'')),
      (MergeBaseIsAncestor ''c1'' ''c2'', Inr []),
      (MergeBaseIsAncestor ''c2'' ''c1'', Inl ''exit status 1''),
      (RevListCount ''feature/x'' ''master'', Inr (line ''2'')),
      (LogMergesGrep ''feature/x'' ''master'', Inr (line ''c2 Merge branch feature/x''))]"

text \<open>
  \<open>repoB\<close>: \<open>feature/y\<close> exists only as the remote-tracking branch \<open>origin/feature/y\<close>, at
  commit \<open>c1\<close>; \<open>master\<close> is at \<open>c4\<close>, three commits ahead of it. Git knows no revision
  named \<open>feature/y\<close>, so every command given that name fails.
\<close>

definition repoB :: git where
  "repoB = table_git
     [(FetchAllPrune, Inr []),
      (RevParseVerify ''master'', Inr (line ''c4'')),
      (RevParseVerify ''feature/y'', Inl ''fatal: Needed a single revision''),
      (RevParseVerify ''origin/feature/y'', Inr (line ''c1'')),
      (RevParse ''master'', Inr (line ''c4'')),
      (RevParse ''origin/feature/y'', Inr (line ''c1'')),
      (LogDate ''c1'', Inr (line ''2024-05-01 10:00:00 +0800'')),
      (LogDate ''c4'', Inr (line ''2024-05-07 09:15:00 +0800'')),
      (MergeBaseIsAncestor ''c1'' ''c4'', Inr []),
      (MergeBaseIsAncestor ''c4'' ''c1'', Inl ''exit status 1''),
      (RevListCount ''origin/feature/y'' ''master'', Inr (line ''3'')),
      (RevListCount ''feature/y'' ''master'', Inl ''fatal: bad revision''),
      (LogMergesGrep ''feature/y'' ''master'', Inr [])]"

text \<open>\<open>repoC\<close>: \<open>master\<close> at \<open>c2\<close> and no other branch, local or remote.\<close>

definition repoC :: git where
  "repoC = table_git
     [(FetchAllPrune, Inr []),
      (RevParseVerify ''master'', Inr (line ''c2'')),
      (RevParse ''master'', Inr (line ''c2'')),
      (LogDate ''c2'', Inr (line ''2024-05-03 16:30:00 +0800''))]"

text \<open>
  \<open>repoD\<close>: the fetch runs into its timeout; locally \<open>master\<close> is at \<open>c2\<close> and the
  branch \<open>feature/x\<close> at \<open>c3\<close>, which is not an ancestor of \<open>c2\<close>; \<open>master\<close> has one commit
  that \<open>feature/x\<close> lacks.
\<close>

definition repoD :: git where
  "repoD = table_git
     [(FetchAllPrune, Inl ''Error: spawnSync /bin/sh ETIMEDOUT''),
      (RevParseVerify ''master'', Inr (line ''c2'')),
      (RevParseVerify ''feature/x'', Inr (line ''c3'')),
      (RevParse ''master'', Inr (line ''c2'')),
      (RevParse ''feature/x'', Inr (line ''c3'')),
      (LogDate ''c2'', Inr (line ''2024-05-03 16:30:00 +0800'')),
      (LogDate ''c3'', Inr (line ''2024-05-02 11:00:00 +0800'')),
      (MergeBaseIsAncestor ''c3'' ''c2'', Inl ''exit status 1''),
      (MergeBaseIsAncestor ''c2'' ''c3'', Inl ''exit status 1''),
      (RevListCount ''feature/x'' ''master'', Inr (line ''1''))]"

text \<open>
  \<open>repoE\<close>: \<open>feature/x\<close> passes the existence check and is gone when its commit is read
  (the branch is deleted in between), so \<^verbatim>\<open>git rev-parse feature/x\<close> fails.
\<close>

definition repoE :: git where
  "repoE = table_git
     [(FetchAllPrune, Inr []),
      (RevParseVerify ''master'', Inr (line ''c2'')),
      (RevParseVerify ''feature/x'', Inr (line ''c3'')),
      (RevParse ''master'', Inr (line ''c2'')),
      (RevParse ''feature/x'', Inl ''fatal: ambiguous argument'')]"

text \<open>
  \<open>repoF\<close>: as \<open>repoD\<close> with a working fetch, but the count of commits comes back as an
  empty output.
\<close>

definition repoF :: git where
  "repoF = table_git
     [(FetchAllPrune, Inr []),
      (RevParseVerify ''master'', Inr (line ''c2'')),
      (RevParseVerify ''feature/x'', Inr (line ''c3'')),
      (RevParse ''master'', Inr (line ''c2'')),
      (RevParse ''feature/x'', Inr (line ''c3'')),
      (LogDate ''c2'', Inr (line ''2024-05-03 16:30:00 +0800'')),
      (LogDate ''c3'', Inr (line ''2024-05-02 11:00:00 +0800'')),
      (MergeBaseIsAncestor ''c3'' ''c2'', Inl ''exit status 1''),
      (MergeBaseIsAncestor ''c2'' ''c3'', Inl ''exit status 1''),
      (RevListCount ''feature/x'' ''master'', Inr [])]"

text \<open>
  \<open>repoG\<close>: both branches exist and resolve to commits, but the object database is
  damaged: every command that walks the history fails with status 128.
\<close>

definition repoG :: git where
  "repoG = table_git
     [(FetchAllPrune, Inr []),
      (RevParseVerify ''master'', Inr (line ''c2'')),
      (RevParseVerify ''feature/x'', Inr (line ''c3'')),
      (RevParse ''master'', Inr (line ''c2'')),
      (RevParse ''feature/x'', Inr (line ''c3'')),
      (LogDate ''c2'', Inl ''fatal: bad object''),
      (LogDate ''c3'', Inl ''fatal: bad object''),
      (MergeBaseIsAncestor ''c3'' ''c2'', Inl ''fatal: bad object''),
      (MergeBaseIsAncestor ''c2'' ''c3'', Inl ''fatal: bad object''),
      (RevListCount ''feature/x'' ''master'', Inl ''fatal: bad object'')]"

text \<open>The working copies below the directory \<open>/work\<close>.\<close>

definition fleet :: world where
  "fleet p =
     (if p = ''/work/A'' then repoA
      else if p = ''/work/B'' then repoB
      else if p = ''/work/C'' then repoC
      else if p = ''/work/D'' then repoD
      else if p = ''/work/E'' then repoE
      else if p = ''/work/F'' then repoF
      else if p = ''/work/G'' then repoG
      else (\<lambda>c. Inl ''fatal: not a git repository''))"

section \<open>Properties of the steps of a job\<close>

lemma succeeded_simps [simp]: "succeeded (Inr x) = True" "succeeded (Inl e) = False"
  by (simp_all add: succeeded_def)

lemma fetch_step_fst:
  "fst (fetch_step g opts r) =
     (if fetch opts then
        (case g FetchAllPrune of
           Inr _ \<Rightarrow> (r\<lparr>fetchSuccess := True\<rparr>)
         | Inl e \<Rightarrow> (r\<lparr>fetchSuccess := False, error := Some (FetchFailed e)\<rparr>))
      else r\<lparr>fetchSuccess := True\<rparr>)"
  by (simp add: fetch_step_def split: sum.splits)

lemma fetch_step_snd: "snd (fetch_step g opts r) = (if fetch opts then [FetchAllPrune] else [])"
  by (simp add: fetch_step_def split: sum.splits)

lemma fetch_step_skipped_or_done:
  assumes "\<not> fetch opts" and "succeeded (g FetchAllPrune)"
  shows "fst (fetch_step g (opts\<lparr>fetch := True\<rparr>) r) = fst (fetch_step g opts r)"
  using assms by (simp add: fetch_step_fst succeeded_def split: sum.splits)

lemma resolve_ref_local:
  "g (RevParseVerify n) = Inr x \<Longrightarrow> resolve_ref g n = ((True, n), [RevParseVerify n])"
  by (simp add: resolve_ref_def)

lemma resolve_ref_remote:
  "g (RevParseVerify n) = Inl e \<Longrightarrow> g (RevParseVerify (origin n)) = Inr x \<Longrightarrow>
   resolve_ref g n = ((True, origin n), [RevParseVerify n, RevParseVerify (origin n)])"
  by (simp add: resolve_ref_def)

lemma resolve_ref_absent:
  "g (RevParseVerify n) = Inl e \<Longrightarrow> g (RevParseVerify (origin n)) = Inl e' \<Longrightarrow>
   resolve_ref g n = ((False, n), [RevParseVerify n, RevParseVerify (origin n)])"
  by (simp add: resolve_ref_def)

lemma resolve_ref_trace:
  "list_all (\<lambda>c. \<not> ancestry_cmd c) (snd (resolve_ref g n))"
  by (simp add: resolve_ref_def split: sum.splits)

lemma resolve_ref_name:
  "snd (fst (resolve_ref g n)) = n \<or> snd (fst (resolve_ref g n)) = origin n"
  by (simp add: resolve_ref_def split: sum.splits)

subsection \<open>The steps of \<open>uptodate\<close>\<close>

lemma dates_uptodate_fields:
  "name (fst (dates_uptodate g mc bc r)) = name r"
  "path (fst (dates_uptodate g mc bc r)) = path r"
  "branchExists (fst (dates_uptodate g mc bc r)) = branchExists r"
  "masterExists (fst (dates_uptodate g mc bc r)) = masterExists r"
  "error (fst (dates_uptodate g mc bc r)) = error r"
  "fetchSuccess (fst (dates_uptodate g mc bc r)) = fetchSuccess r"
  "isUpToDate (fst (dates_uptodate g mc bc r)) = isUpToDate r"
  "hasMasterChanges (fst (dates_uptodate g mc bc r)) = hasMasterChanges r"
  "behindCommits (fst (dates_uptodate g mc bc r)) = behindCommits r"
  "lastMasterCommit (fst (dates_uptodate g mc bc r)) = lastMasterCommit r"
  "lastBranchCommit (fst (dates_uptodate g mc bc r)) = lastBranchCommit r"
  "snd (dates_uptodate g mc bc r) = [LogDate mc, LogDate bc]"
  by (simp_all add: dates_uptodate_def Let_def split: sum.splits)

lemma ancestry_uptodate_fields:
  "name (fst (ancestry_uptodate g bn bb mc bc r)) = name r"
  "path (fst (ancestry_uptodate g bn bb mc bc r)) = path r"
  "branchExists (fst (ancestry_uptodate g bn bb mc bc r)) = branchExists r"
  "masterExists (fst (ancestry_uptodate g bn bb mc bc r)) = masterExists r"
  "error (fst (ancestry_uptodate g bn bb mc bc r)) = error r"
  "fetchSuccess (fst (ancestry_uptodate g bn bb mc bc r)) = fetchSuccess r"
  "lastMasterCommit (fst (ancestry_uptodate g bn bb mc bc r)) = lastMasterCommit r"
  "lastBranchCommit (fst (ancestry_uptodate g bn bb mc bc r)) = lastBranchCommit r"
  "isUpToDate (fst (ancestry_uptodate g bn bb mc bc r)) = succeeded (g (MergeBaseIsAncestor mc bc))"
  "hasMasterChanges (fst (ancestry_uptodate g bn bb mc bc r)) =
     (\<not> succeeded (g (MergeBaseIsAncestor mc bc)))"
  "behindCommits (fst (ancestry_uptodate g bn bb mc bc r)) =
     (case g (MergeBaseIsAncestor mc bc) of
        Inr _ \<Rightarrow> behindCommits r
      | Inl _ \<Rightarrow> (case g (RevListCount bn bb) of
                   Inr out \<Rightarrow> or_zero (parseInt (trim out))
                 | Inl _ \<Rightarrow> 0))"
  "snd (ancestry_uptodate g bn bb mc bc r) =
     (case g (MergeBaseIsAncestor mc bc) of
        Inr _ \<Rightarrow> [MergeBaseIsAncestor mc bc]
      | Inl _ \<Rightarrow> [MergeBaseIsAncestor mc bc, RevListCount bn bb])"
  by (simp_all add: ancestry_uptodate_def split: sum.splits)

lemma check_uptodate_fst:
  "fst (check_uptodate g bn bb ab am r) =
     (case g (RevParse am) of
        Inl e \<Rightarrow> (r\<lparr>error := Some (CheckFailed e)\<rparr>)
      | Inr out1 \<Rightarrow>
          (case g (RevParse ab) of
             Inl e \<Rightarrow> (r\<lparr>error := Some (CheckFailed e)\<rparr>)
           | Inr out2 \<Rightarrow>
               fst (ancestry_uptodate g bn bb (trim out1) (trim out2)
                 (fst (dates_uptodate g (trim out1) (trim out2)
                    (r\<lparr>lastMasterCommit := Some (trim out1),
                       lastBranchCommit := Some (trim out2)\<rparr>))))))"
  by (simp add: check_uptodate_def Let_def case_prod_beta split: sum.splits)

lemma check_uptodate_snd:
  "snd (check_uptodate g bn bb ab am r) =
     (case g (RevParse am) of
        Inl e \<Rightarrow> [RevParse am]
      | Inr out1 \<Rightarrow>
          (case g (RevParse ab) of
             Inl e \<Rightarrow> [RevParse am, RevParse ab]
           | Inr out2 \<Rightarrow>
               [RevParse am, RevParse ab, LogDate (trim out1), LogDate (trim out2)] @
               (case g (MergeBaseIsAncestor (trim out1) (trim out2)) of
                  Inr _ \<Rightarrow> [MergeBaseIsAncestor (trim out1) (trim out2)]
                | Inl _ \<Rightarrow> [MergeBaseIsAncestor (trim out1) (trim out2),
                            RevListCount bn bb])))"
  by (simp add: check_uptodate_def Let_def case_prod_beta dates_uptodate_fields
        ancestry_uptodate_fields split: sum.splits)

lemma uptodate_fst:
  "fst (processProject_uptodate w pn td bn bb opts) =
     (let projectPath = path_join td pn;
          g = w projectPath;
          result = \<lparr>name = pn, path = projectPath,
                    branchExists = False, masterExists = False,
                    error = None, fetchSuccess = False,
                    hasMasterChanges = False, isUpToDate = False, behindCommits = 0,
                    lastMasterCommit = None, lastBranchCommit = None,
                    lastMasterDate = None, lastBranchDate = None\<rparr>;
          r1 = fst (fetch_step g opts result);
          m = fst (resolve_ref g bb);
          b = fst (resolve_ref g bn);
          r3 = r1\<lparr>masterExists := fst m, branchExists := fst b\<rparr>
      in if fst b \<and> fst m then fst (check_uptodate g bn bb (snd b) (snd m) r3) else r3)"
  by (simp add: processProject_uptodate_def Let_def case_prod_beta)

lemma uptodate_snd:
  "snd (processProject_uptodate w pn td bn bb opts) =
     (let g = w (path_join td pn); m = fst (resolve_ref g bb); b = fst (resolve_ref g bn)
      in (if fetch opts then [FetchAllPrune] else []) @
         snd (resolve_ref g bb) @ snd (resolve_ref g bn) @
         (if fst b \<and> fst m then
            (case g (RevParse (snd m)) of
               Inl e \<Rightarrow> [RevParse (snd m)]
             | Inr out1 \<Rightarrow>
                 (case g (RevParse (snd b)) of
                    Inl e \<Rightarrow> [RevParse (snd m), RevParse (snd b)]
                  | Inr out2 \<Rightarrow>
                      [RevParse (snd m), RevParse (snd b),
                       LogDate (trim out1), LogDate (trim out2)] @
                      (case g (MergeBaseIsAncestor (trim out1) (trim out2)) of
                         Inr _ \<Rightarrow> [MergeBaseIsAncestor (trim out1) (trim out2)]
                       | Inl _ \<Rightarrow> [MergeBaseIsAncestor (trim out1) (trim out2),
                                   RevListCount bn bb])))
          else []))"
  by (simp add: processProject_uptodate_def Let_def case_prod_beta fetch_step_snd
        check_uptodate_snd)

lemmas uptodate_steps =
  uptodate_fst Let_def fetch_step_fst check_uptodate_fst
  ancestry_uptodate_fields dates_uptodate_fields

lemma uptodate_name:
  "name (fst (processProject_uptodate w pn td bn bb opts)) = pn"
  "path (fst (processProject_uptodate w pn td bn bb opts)) = path_join td pn"
  by (simp_all add: uptodate_steps split: sum.splits)

lemma uptodate_fetchSuccess:
  "fetchSuccess (fst (processProject_uptodate w pn td bn bb opts)) =
     (if fetch opts then succeeded (w (path_join td pn) FetchAllPrune) else True)"
  by (simp add: uptodate_steps split: sum.splits)

lemma uptodate_exists:
  "masterExists (fst (processProject_uptodate w pn td bn bb opts)) =
     fst (fst (resolve_ref (w (path_join td pn)) bb))"
  "branchExists (fst (processProject_uptodate w pn td bn bb opts)) =
     fst (fst (resolve_ref (w (path_join td pn)) bn))"
  by (simp_all add: uptodate_steps split: sum.splits)

lemma uptodate_error:
  "error (fst (processProject_uptodate w pn td bn bb opts)) =
     (let g = w (path_join td pn); m = fst (resolve_ref g bb); b = fst (resolve_ref g bn)
      in if fst b \<and> fst m then
           (case g (RevParse (snd m)) of
              Inl e \<Rightarrow> Some (CheckFailed e)
            | Inr _ \<Rightarrow> (case g (RevParse (snd b)) of
                         Inl e \<Rightarrow> Some (CheckFailed e)
                       | Inr _ \<Rightarrow> fetch_failure g opts))
         else fetch_failure g opts)"
  by (simp add: uptodate_steps fetch_failure_def split: sum.splits)

lemma uptodate_commits:
  "lastMasterCommit (fst (processProject_uptodate w pn td bn bb opts)) =
     (let g = w (path_join td pn) in
      case resolved_commit g bb of
        None \<Rightarrow> None
      | Some cm \<Rightarrow> (case resolved_commit g bn of None \<Rightarrow> None | Some cb \<Rightarrow> Some cm))"
  "lastBranchCommit (fst (processProject_uptodate w pn td bn bb opts)) =
     (let g = w (path_join td pn) in
      case resolved_commit g bb of
        None \<Rightarrow> None
      | Some cm \<Rightarrow> resolved_commit g bn)"
  by (simp_all add: uptodate_steps resolved_commit_def case_prod_beta split: sum.splits)

lemma uptodate_isUpToDate:
  "isUpToDate (fst (processProject_uptodate w pn td bn bb opts)) =
     (let g = w (path_join td pn) in
      case resolved_commit g bb of
        None \<Rightarrow> False
      | Some cm \<Rightarrow> (case resolved_commit g bn of
                     None \<Rightarrow> False
                   | Some cb \<Rightarrow> is_ancestor g cm cb))"
  by (simp add: uptodate_steps resolved_commit_def is_ancestor_def case_prod_beta
        split: sum.splits)

lemma uptodate_hasMasterChanges:
  "hasMasterChanges (fst (processProject_uptodate w pn td bn bb opts)) =
     (let g = w (path_join td pn) in
      case resolved_commit g bb of
        None \<Rightarrow> False
      | Some cm \<Rightarrow> (case resolved_commit g bn of
                     None \<Rightarrow> False
                   | Some cb \<Rightarrow> \<not> is_ancestor g cm cb))"
  by (simp add: uptodate_steps resolved_commit_def is_ancestor_def case_prod_beta
        split: sum.splits)

lemma uptodate_behindCommits:
  "behindCommits (fst (processProject_uptodate w pn td bn bb opts)) =
     (let g = w (path_join td pn) in
      case resolved_commit g bb of
        None \<Rightarrow> 0
      | Some cm \<Rightarrow> (case resolved_commit g bn of
                     None \<Rightarrow> 0
                   | Some cb \<Rightarrow>
                       if is_ancestor g cm cb then 0
                       else (case g (RevListCount bn bb) of
                               Inr out \<Rightarrow> or_zero (parseInt (trim out))
                             | Inl _ \<Rightarrow> 0)))"
  by (simp add: uptodate_steps resolved_commit_def is_ancestor_def case_prod_beta
        split: sum.splits)

subsection \<open>The steps of \<open>merged\<close>\<close>

lemma merge_info_fields:
  "name (fst (merge_info g bn bb r)) = name r"
  "path (fst (merge_info g bn bb r)) = path r"
  "branchExists (fst (merge_info g bn bb r)) = branchExists r"
  "masterExists (fst (merge_info g bn bb r)) = masterExists r"
  "error (fst (merge_info g bn bb r)) = error r"
  "fetchSuccess (fst (merge_info g bn bb r)) = fetchSuccess r"
  "isMerged (fst (merge_info g bn bb r)) = isMerged r"
  by (simp_all add: merge_info_def Let_def split: sum.splits option.splits)

lemma merge_info_trace:
  "list_all (\<lambda>c. \<not> ancestry_cmd c) (snd (merge_info g bn bb r))"
  by (simp add: merge_info_def Let_def split: sum.splits option.splits)

lemma check_merged_fst:
  "fst (check_merged g bn bb ab am r) =
     (case g (RevParse ab) of
        Inl e \<Rightarrow> (r\<lparr>error := Some (CheckFailed e)\<rparr>)
      | Inr out1 \<Rightarrow>
          (case g (RevParse am) of
             Inl e \<Rightarrow> (r\<lparr>error := Some (CheckFailed e)\<rparr>)
           | Inr out2 \<Rightarrow>
               (case g (MergeBaseIsAncestor (trim out1) (trim out2)) of
                  Inr _ \<Rightarrow> fst (merge_info g bn bb (r\<lparr>isMerged := True\<rparr>))
                | Inl _ \<Rightarrow> (r\<lparr>isMerged := False\<rparr>))))"
  by (simp add: check_merged_def Let_def case_prod_beta split: sum.splits)

lemma check_merged_snd:
  "snd (check_merged g bn bb ab am r) =
     (case g (RevParse ab) of
        Inl e \<Rightarrow> [RevParse ab]
      | Inr out1 \<Rightarrow>
          (case g (RevParse am) of
             Inl e \<Rightarrow> [RevParse ab, RevParse am]
           | Inr out2 \<Rightarrow>
               [RevParse ab, RevParse am, MergeBaseIsAncestor (trim out1) (trim out2)] @
               (case g (MergeBaseIsAncestor (trim out1) (trim out2)) of
                  Inr _ \<Rightarrow> snd (merge_info g bn bb (r\<lparr>isMerged := True\<rparr>))
                | Inl _ \<Rightarrow> [])))"
  by (simp add: check_merged_def Let_def case_prod_beta split: sum.splits)

lemma merged_fst:
  "fst (processProject_merged w pn td bn bb opts) =
     (let projectPath = path_join td pn;
          g = w projectPath;
          result = \<lparr>name = pn, path = projectPath,
                    branchExists = False, masterExists = False,
                    error = None, fetchSuccess = False,
                    isMerged = False, mergeCommit = None, mergeDate = None\<rparr>;
          r1 = fst (fetch_step g opts result);
          m = fst (resolve_ref g bb);
          b = fst (resolve_ref g bn);
          r3 = r1\<lparr>masterExists := fst m, branchExists := fst b\<rparr>
      in if fst b \<and> fst m then fst (check_merged g bn bb (snd b) (snd m) r3) else r3)"
  by (simp add: processProject_merged_def Let_def case_prod_beta)

lemma merged_snd:
  "snd (processProject_merged w pn td bn bb opts) =
     (let projectPath = path_join td pn;
          g = w projectPath;
          result = \<lparr>name = pn, path = projectPath,
                    branchExists = False, masterExists = False,
                    error = None, fetchSuccess = False,
                    isMerged = False, mergeCommit = None, mergeDate = None\<rparr>;
          r1 = fst (fetch_step g opts result);
          m = fst (resolve_ref g bb);
          b = fst (resolve_ref g bn);
          r3 = r1\<lparr>masterExists := fst m, branchExists := fst b\<rparr>
      in (if fetch opts then [FetchAllPrune] else []) @
         snd (resolve_ref g bb) @ snd (resolve_ref g bn) @
         (if fst b \<and> fst m then snd (check_merged g bn bb (snd b) (snd m) r3) else []))"
  by (simp add: processProject_merged_def Let_def case_prod_beta fetch_step_snd)

lemmas merged_steps =
  merged_fst Let_def fetch_step_fst check_merged_fst merge_info_fields

lemma merged_name:
  "name (fst (processProject_merged w pn td bn bb opts)) = pn"
  "path (fst (processProject_merged w pn td bn bb opts)) = path_join td pn"
  by (simp_all add: merged_steps split: sum.splits)

lemma merged_fetchSuccess:
  "fetchSuccess (fst (processProject_merged w pn td bn bb opts)) =
     (if fetch opts then succeeded (w (path_join td pn) FetchAllPrune) else True)"
  by (simp add: merged_steps split: sum.splits)

lemma merged_exists:
  "masterExists (fst (processProject_merged w pn td bn bb opts)) =
     fst (fst (resolve_ref (w (path_join td pn)) bb))"
  "branchExists (fst (processProject_merged w pn td bn bb opts)) =
     fst (fst (resolve_ref (w (path_join td pn)) bn))"
  by (simp_all add: merged_steps split: sum.splits)

lemma merged_error:
  "error (fst (processProject_merged w pn td bn bb opts)) =
     (let g = w (path_join td pn); m = fst (resolve_ref g bb); b = fst (resolve_ref g bn)
      in if fst b \<and> fst m then
           (case g (RevParse (snd b)) of
              Inl e \<Rightarrow> Some (CheckFailed e)
            | Inr _ \<Rightarrow> (case g (RevParse (snd m)) of
                         Inl e \<Rightarrow> Some (CheckFailed e)
                       | Inr _ \<Rightarrow> fetch_failure g opts))
         else fetch_failure g opts)"
  by (simp add: merged_steps fetch_failure_def split: sum.splits)

lemma merged_isMerged:
  "isMerged (fst (processProject_merged w pn td bn bb opts)) =
     (let g = w (path_join td pn) in
      case resolved_commit g bn of
        None \<Rightarrow> False
      | Some cb \<Rightarrow> (case resolved_commit g bb of
                     None \<Rightarrow> False
                   | Some cm \<Rightarrow> is_ancestor g cb cm))"
  by (simp add: merged_steps resolved_commit_def is_ancestor_def case_prod_beta
        split: sum.splits)

section \<open>Properties of the scheduling loop\<close>

lemma wave_loop_rule:
  assumes p: "0 < p" and I0: "I i st"
    and step: "\<And>i st. I i st \<Longrightarrow> i < int (length dirs)
                 \<Longrightarrow> I (i + p) (wave_step job (Num p) dirs (Num i) st)"
  shows "\<exists>j st'. wave_loop job (Num p) dirs (Num i) st = Some st' \<and> I j st'
           \<and> int (length dirs) \<le> j"
  using I0
proof (induction "nat (int (length dirs) - i)" arbitrary: i st rule: less_induct)
  case less
  show ?case
  proof (cases "i < int (length dirs)")
    case True
    have "nat (int (length dirs) - (i + p)) < nat (int (length dirs) - i)"
      using p True by simp
    from less.hyps [OF this step [OF less.prems True]]
    show ?thesis using True by (subst wave_loop.simps) simp
  next
    case False
    then show ?thesis using less.prems by (subst wave_loop.simps) auto
  qed
qed

lemma slice_batch:
  assumes "0 \<le> i" "i < int (length xs)" "0 < p"
  shows "slice xs (Num i) (js_add (Num i) (Num p))
           = take (nat (min (i + p) (int (length xs)) - i)) (drop (nat i) xs)"
  using assms by (simp add: slice_def relative_index_def Let_def min_def)

lemma take_batch:
  assumes "0 \<le> i" "i < int (length xs)" "0 < p"
  shows "take (nat i) xs @ take (nat (min (i + p) (int (length xs)) - i)) (drop (nat i) xs)
           = take (nat (i + p)) xs"
proof -
  have "take (nat i) xs @ take (nat (min (i + p) (int (length xs)) - i)) (drop (nat i) xs)
          = take (nat i + nat (min (i + p) (int (length xs)) - i)) xs"
    by (simp add: take_add)
  also have "nat i + nat (min (i + p) (int (length xs)) - i)
               = nat (min (i + p) (int (length xs)))"
    using assms by arith
  also have "take (nat (min (i + p) (int (length xs)))) xs = take (nat (i + p)) xs"
  proof (cases "i + p \<le> int (length xs)")
    case True
    then show ?thesis by (simp add: min_def)
  next
    case False
    then have "length xs \<le> nat (i + p)" by arith
    then show ?thesis using False by (simp add: min_def)
  qed
  finally show ?thesis .
qed

lemma cumulative_append:
  "cumulative k (h @ [(b, c)])
     = (cumulative k h \<and> c = Num (int (k + length (concat (map fst h)) + length b)))"
  by (induction h arbitrary: k) (auto simp add: add.assoc)

lemma cumulative_lower:
  "cumulative k h \<Longrightarrow> x \<in> set h \<Longrightarrow> int k \<le> to_integer (snd x)"
proof (induction h arbitrary: k)
  case Nil
  then show ?case by simp
next
  case (Cons y h)
  obtain b c where y: "y = (b, c)" by (cases y)
  show ?case
  proof (cases "x = y")
    case True
    then show ?thesis using Cons.prems y by simp
  next
    case False
    then have "x \<in> set h" using Cons.prems by simp
    moreover have "cumulative (k + length b) h" using Cons.prems y by simp
    ultimately have "int (k + length b) \<le> to_integer (snd x)" by (rule Cons.IH [rotated])
    then show ?thesis by simp
  qed
qed

lemma cumulative_sorted:
  "cumulative k h \<Longrightarrow> sorted (map (\<lambda>x. to_integer (snd x)) h)"
proof (induction h arbitrary: k)
  case Nil
  then show ?case by simp
next
  case (Cons y h)
  obtain b c where y: "y = (b, c)" by (cases y)
  have rest: "cumulative (k + length b) h" and c: "c = Num (int (k + length b))"
    using Cons.prems y by simp_all
  have "\<forall>x\<in>set h. to_integer c \<le> to_integer (snd x)"
    using cumulative_lower [OF rest] c by simp
  then show ?case using Cons.IH [OF rest] y by simp
qed

lemma cumulative_last:
  "cumulative k h \<Longrightarrow> h \<noteq> [] \<Longrightarrow>
   snd (last h) = Num (int (k + length (concat (map fst h))))"
proof (induction h arbitrary: k)
  case Nil
  then show ?case by simp
next
  case (Cons y h)
  obtain b c where y: "y = (b, c)" by (cases y)
  show ?case
  proof (cases "h = []")
    case True
    then show ?thesis using Cons.prems y by simp
  next
    case False
    have "cumulative (k + length b) h" using Cons.prems y by simp
    from Cons.IH [OF this False] show ?thesis using False y by (simp add: add.assoc)
  qed
qed

lemma wave_inv_step:
  assumes p: "0 < p" and inv: "wave_inv job p dirs i st" and lt: "i < int (length dirs)"
  shows "wave_inv job p dirs (i + p) (wave_step job (Num p) dirs (Num i) st)"
proof -
  let ?n = "int (length dirs)"
  define batch where "batch = take (nat (min (i + p) ?n - i)) (drop (nat i) dirs)"
  have i0: "0 \<le> i" using inv by (simp add: wave_inv_def)
  have sl: "slice dirs (Num i) (js_add (Num i) (Num p)) = batch"
    unfolding batch_def by (rule slice_batch [OF i0 lt p])
  have tk: "take (nat i) dirs @ batch = take (nat (i + p)) dirs"
    unfolding batch_def by (rule take_batch [OF i0 lt p])
  have "length batch = min (length dirs - nat i) (nat (min (i + p) ?n - i))"
    unfolding batch_def by simp
  then have len: "int (length batch) = min (i + p) ?n - i"
    using i0 lt p by arith
  have "0 < int (length batch)" using len lt p by arith
  then have ne: "batch \<noteq> []" by auto
  have le: "int (length batch) \<le> p" using len by arith
  have sofar: "length (concat (map fst (history st))) = nat i"
    using inv lt i0 by (simp add: wave_inv_def)
  have cnt: "int (length (concat (map fst (history st))) + length batch) = min (i + p) ?n"
    using sofar len i0 by simp
  have h: "int (length (history st)) * p = i" "cumulative 0 (history st)"
    "\<forall>x\<in>set (history st). fst x \<noteq> [] \<and> int (length (fst x)) \<le> p"
    "results st = map job (take (nat i) dirs)"
    "concat (map fst (history st)) = take (nat i) dirs"
    "total (progressBar st) = length dirs"
    using inv by (simp_all add: wave_inv_def)
  let ?h' = "history st @ [(batch, Num (min (i + p) ?n))]"
  let ?st' = "wave_step job (Num p) dirs (Num i) st"
  have r': "results ?st' = results st @ map job batch"
    and h': "history ?st' = ?h'"
    and t': "total (progressBar ?st') = length dirs"
    and c': "current (progressBar ?st') = Num (min (i + p) ?n)"
    using h(6) sl by (simp_all add: wave_step_def Let_def update_def)
  have 1: "0 \<le> i + p" using i0 p by simp
  have 2: "i + p = 0 \<or> i + p - p < ?n" using lt by simp
  have 3: "i + p = int (length ?h') * p"
    using h(1) by (simp add: distrib_right)
  have 4: "results st @ map job batch = map job (take (nat (i + p)) dirs)"
    using h(4) tk by (metis map_append)
  have 5: "concat (map fst ?h') = take (nat (i + p)) dirs"
    using h(5) tk by simp
  have 6: "cumulative 0 ?h'"
    using h(2) cnt by (simp add: cumulative_append)
  have 7: "\<forall>x\<in>set ?h'. fst x \<noteq> [] \<and> int (length (fst x)) \<le> p"
    using h(3) ne le by simp
  show ?thesis
    unfolding wave_inv_def r' h' t' c'
    using 1 2 3 4 5 6 7 by blast
qed

lemma run_waves_inv:
  assumes par: "parseInt (parallel opts) = Num p" and p: "0 < p"
  shows "\<exists>j st. run_waves job opts dirs = Some st \<and> wave_inv job p dirs j st
           \<and> int (length dirs) \<le> j"
proof -
  let ?st0 = "\<lparr>results = [], progressBar = createProgressBar (length dirs), history = []\<rparr>
                :: 'a run_state"
  have "wave_inv job p dirs 0 ?st0"
    by (simp add: wave_inv_def createProgressBar_def)
  moreover have "wave_inv job p dirs (i + p) (wave_step job (Num p) dirs (Num i) st)"
    if "wave_inv job p dirs i st" "i < int (length dirs)" for i and st :: "'a run_state"
    using that by (rule wave_inv_step [OF p])
  ultimately have "\<exists>j st'. wave_loop job (Num p) dirs (Num 0) ?st0 = Some st'
      \<and> wave_inv job p dirs j st' \<and> int (length dirs) \<le> j"
    by (rule wave_loop_rule [OF p])
  then show ?thesis by (simp add: run_waves_def par)
qed

lemma wave_count:
  assumes "0 < p" "int n \<le> int k * p" "int k * p = 0 \<or> int k * p - p < int n"
  shows "int k = (int n + p - 1) div p"
proof (cases "k = 0")
  case True
  then have "n = 0" using assms by simp
  then show ?thesis using True assms by simp
next
  case False
  then have lt: "int k * p - p < int n" using assms by auto
  have "int n + p - 1 = p * int k + (int n + p - 1 - int k * p)" by (simp add: mult.commute)
  moreover have "0 \<le> int n + p - 1 - int k * p" using lt by simp
  moreover have "int n + p - 1 - int k * p < p" using assms by simp
  ultimately have "(int n + p - 1) div p = int k" by (rule int_div_pos_eq)
  then show ?thesis by simp
qed

lemma run_waves_total:
  assumes par: "parseInt (parallel opts) = Num p" and p: "0 < p"
  shows "\<exists>st. run_waves job opts dirs = Some st \<and> results st = map job dirs
           \<and> progress_reported p dirs st"
proof -
  from run_waves_inv [OF par p, of job dirs]
  obtain j st where run: "run_waves job opts dirs = Some st"
    and inv: "wave_inv job p dirs j st" and j: "int (length dirs) \<le> j"
    by blast
  let ?n = "int (length dirs)"
  have all: "take (nat j) dirs = dirs" using j by simp
  have res: "results st = map job dirs"
    and cc: "concat (map fst (history st)) = dirs"
    and cum: "cumulative 0 (history st)"
    and sz: "\<forall>x\<in>set (history st). fst x \<noteq> [] \<and> int (length (fst x)) \<le> p"
    and tot: "total (progressBar st) = length dirs"
    using inv all by (simp_all add: wave_inv_def)
  have cur: "current (progressBar st) = Num ?n"
    using inv j by (simp add: wave_inv_def min_def)
  have jk: "j = int (length (history st)) * p" and last: "j = 0 \<or> j - p < ?n"
    using inv unfolding wave_inv_def by blast+
  have cnt: "int (length (history st)) = (?n + p - 1) div p"
    using wave_count [OF p, of "length dirs" "length (history st)"] j jk last by simp
  have srt: "sorted (map (\<lambda>x. to_integer (snd x)) (history st))"
    by (rule cumulative_sorted [OF cum])
  have fin: "history st \<noteq> [] \<and> snd (last (history st)) = Num ?n" if "dirs \<noteq> []"
  proof -
    have ne: "history st \<noteq> []" using cc that by auto
    from cumulative_last [OF cum ne] cc ne show ?thesis by simp
  qed
  have "progress_reported p dirs st"
    unfolding progress_reported_def using cc sz cnt cum srt fin tot cur by blast
  then show ?thesis using run res by blast
qed

subsection \<open>A limit that is not positive\<close>

text \<open>
  With \<open>parallel = 0\<close> the loop variable never moves: when there is a project to
  handle, the loop has no final state. With \<open>parallel = NaN\<close> (an option value without
  leading digits) the loop makes one turn with an empty batch and ends without a result.
\<close>

lemma wave_loop_zero_never_ends:
  assumes run: "wave_loop job par dirs i st = Some st'"
  shows "\<not> (par = Num 0 \<and> js_lt i (Num (int (length dirs))))"
proof (rule wave_loop.raw_induct
    [where P = "\<lambda>job par dirs i st st'. \<not> (par = Num 0 \<and> js_lt i (Num (int (length dirs))))",
     OF _ run])
  fix wl :: "(string \<Rightarrow> 'a) \<Rightarrow> jsnum \<Rightarrow> string list \<Rightarrow> jsnum \<Rightarrow> 'a run_state
               \<Rightarrow> 'a run_state option"
  fix job par dirs i st y
  assume IH: "\<And>job par dirs i st y. wl job par dirs i st = Some y
                \<Longrightarrow> \<not> (par = Num 0 \<and> js_lt i (Num (int (length dirs))))"
    and eq: "(if js_lt i (Num (int (length dirs)))
              then wl job par dirs (js_add i par) (wave_step job par dirs i st)
              else Some st) = Some y"
  show "\<not> (par = Num 0 \<and> js_lt i (Num (int (length dirs))))"
  proof
    assume a: "par = Num 0 \<and> js_lt i (Num (int (length dirs)))"
    then obtain k where k: "i = Num k" by (cases i) auto
    from a eq have "wl job par dirs (js_add i par) (wave_step job par dirs i st) = Some y"
      by simp
    from IH [OF this] a k show False by simp
  qed
qed

lemma run_waves_zero:
  assumes "parseInt (parallel opts) = Num 0" and "dirs \<noteq> []"
  shows "run_waves job opts dirs = None"
proof (cases "run_waves job opts dirs")
  case None
  then show ?thesis .
next
  case (Some st')
  then have "wave_loop job (Num 0) dirs (Num 0)
      \<lparr>results = [], progressBar = createProgressBar (length dirs), history = []\<rparr> = Some st'"
    using assms(1) by (simp add: run_waves_def)
  from wave_loop_zero_never_ends [OF this] assms(2) show ?thesis by simp
qed

lemma run_waves_NaN:
  assumes "parseInt (parallel opts) = NaN" and "dirs \<noteq> []"
  shows "\<exists>st. run_waves job opts dirs = Some st \<and> results st = []
           \<and> history st = [([], NaN)]"
proof -
  let ?st0 = "\<lparr>results = [], progressBar = createProgressBar (length dirs), history = []\<rparr>
                :: 'a run_state"
  have "wave_loop job NaN dirs (Num 0) ?st0 = wave_loop job NaN dirs NaN
          (wave_step job NaN dirs (Num 0) ?st0)"
    using assms(2) by (subst wave_loop.simps) simp
  also have "\<dots> = Some (wave_step job NaN dirs (Num 0) ?st0)"
    by (subst wave_loop.simps) simp
  finally show ?thesis
    using assms(1)
    by (simp add: run_waves_def wave_step_def slice_def relative_index_def)
qed

section \<open>Evaluating the example working copies\<close>

lemmas example_defs =
  fleet_def repoA_def repoB_def repoC_def repoD_def repoE_def repoF_def repoG_def table_git_def line_def path_join_def
  origin_def trim_def is_space_def

lemmas job_defs =
  processProject_merged_def processProject_uptodate_def fetch_step_def resolve_ref_def
  check_merged_def check_uptodate_def merge_info_def dates_uptodate_def
  ancestry_uptodate_def Let_def

section \<open>The claims\<close>

text \<open>
  C10. With the fetch disabled (\<open>--no-fetch\<close>) a job of either command reports
  \<open>fetchSuccess = true\<close>; and its result record is the very record the job produces with
  the fetch enabled when that fetch succeeds, so the record does not tell a skipped fetch
  from a successful one.
\<close>

theorem skipped_fetch_reported_as_success:
  assumes "\<not> fetch opts"
  shows "fetchSuccess (fst (processProject_merged w pn td bn bb opts))
       \<and> fetchSuccess (fst (processProject_uptodate w pn td bn bb opts))
       \<and> (succeeded (w (path_join td pn) FetchAllPrune) \<longrightarrow>
            fst (processProject_merged w pn td bn bb (opts\<lparr>fetch := True\<rparr>))
              = fst (processProject_merged w pn td bn bb opts)
          \<and> fst (processProject_uptodate w pn td bn bb (opts\<lparr>fetch := True\<rparr>))
              = fst (processProject_uptodate w pn td bn bb opts))"
proof -
  have "fetchSuccess (fst (processProject_merged w pn td bn bb opts))"
    using assms by (simp add: merged_fetchSuccess)
  moreover have "fetchSuccess (fst (processProject_uptodate w pn td bn bb opts))"
    using assms by (simp add: uptodate_fetchSuccess)
  moreover have "fst (processProject_merged w pn td bn bb (opts\<lparr>fetch := True\<rparr>))
        = fst (processProject_merged w pn td bn bb opts)"
    if "succeeded (w (path_join td pn) FetchAllPrune)"
    by (simp only: merged_fst Let_def fetch_step_skipped_or_done [of opts "w (path_join td pn)", OF assms that])
  moreover have "fst (processProject_uptodate w pn td bn bb (opts\<lparr>fetch := True\<rparr>))
        = fst (processProject_uptodate w pn td bn bb opts)"
    if "succeeded (w (path_join td pn) FetchAllPrune)"
    by (simp only: uptodate_fst Let_def fetch_step_skipped_or_done [of opts "w (path_join td pn)", OF assms that])
  ultimately show ?thesis by blast
qed

theorem skipped_fetch_reported_as_success_witness:
  "\<not> fetch \<lparr>fetch = False, parallel = ''5''\<rparr>
   \<and> fetchSuccess (fst (processProject_merged fleet ''A'' ''/work'' ''feature/x'' ''master''
        \<lparr>fetch = False, parallel = ''5''\<rparr>))
   \<and> fetchSuccess (fst (processProject_uptodate fleet ''A'' ''/work'' ''feature/x'' ''master''
        \<lparr>fetch = False, parallel = ''5''\<rparr>))
   \<and> succeeded (fleet ''/work/A'' FetchAllPrune)
   \<and> fst (processProject_merged fleet ''A'' ''/work'' ''feature/x'' ''master''
        \<lparr>fetch = True, parallel = ''5''\<rparr>)
     = fst (processProject_merged fleet ''A'' ''/work'' ''feature/x'' ''master''
        \<lparr>fetch = False, parallel = ''5''\<rparr>)
   \<and> fst (processProject_uptodate fleet ''A'' ''/work'' ''feature/x'' ''master''
        \<lparr>fetch = True, parallel = ''5''\<rparr>)
     = fst (processProject_uptodate fleet ''A'' ''/work'' ''feature/x'' ''master''
        \<lparr>fetch = False, parallel = ''5''\<rparr>)"
proof -
  have ok: "succeeded (fleet (path_join ''/work'' ''A'') FetchAllPrune)"
    by (simp add: example_defs)
  have off: "\<not> fetch \<lparr>fetch = False, parallel = ''5''\<rparr>" by simp
  show ?thesis
    using skipped_fetch_reported_as_success
      [OF off, of fleet "''A''" "''/work''" "''feature/x''" "''master''"] ok
    by (simp add: path_join_def)
qed

text \<open>
  C4. A requested name is first verified as it is; only when that fails is
  \<open>origin/<name>\<close> verified. When one of the two attempts succeeds, the name that
  resolved is the resolved name; when both fail, the name does not exist. In a job the
  two existence flags are those of the resolution, and a name that does not exist leaves
  no commit hash and no error of its own in the result: \<open>error\<close> is what the fetch step
  left.
\<close>

theorem resolution_local_then_remote:
  "(succeeded (g (RevParseVerify n)) \<longrightarrow>
      resolve_ref g n = ((True, n), [RevParseVerify n]))
   \<and> (\<not> succeeded (g (RevParseVerify n)) \<and> succeeded (g (RevParseVerify (origin n))) \<longrightarrow>
      resolve_ref g n = ((True, origin n), [RevParseVerify n, RevParseVerify (origin n)]))
   \<and> (\<not> succeeded (g (RevParseVerify n)) \<and> \<not> succeeded (g (RevParseVerify (origin n))) \<longrightarrow>
      resolve_ref g n = ((False, n), [RevParseVerify n, RevParseVerify (origin n)]))
   \<and> masterExists (fst (processProject_merged w pn td bn bb opts))
       = fst (fst (resolve_ref (w (path_join td pn)) bb))
   \<and> branchExists (fst (processProject_merged w pn td bn bb opts))
       = fst (fst (resolve_ref (w (path_join td pn)) bn))
   \<and> masterExists (fst (processProject_uptodate w pn td bn bb opts))
       = fst (fst (resolve_ref (w (path_join td pn)) bb))
   \<and> branchExists (fst (processProject_uptodate w pn td bn bb opts))
       = fst (fst (resolve_ref (w (path_join td pn)) bn))
   \<and> (\<not> fst (fst (resolve_ref (w (path_join td pn)) bn))
        \<or> \<not> fst (fst (resolve_ref (w (path_join td pn)) bb)) \<longrightarrow>
        lastBranchCommit (fst (processProject_uptodate w pn td bn bb opts)) = None
      \<and> lastMasterCommit (fst (processProject_uptodate w pn td bn bb opts)) = None
      \<and> mergeCommit (fst (processProject_merged w pn td bn bb opts)) = None
      \<and> error (fst (processProject_uptodate w pn td bn bb opts))
          = fetch_failure (w (path_join td pn)) opts
      \<and> error (fst (processProject_merged w pn td bn bb opts))
          = fetch_failure (w (path_join td pn)) opts)"
proof -
  have "resolve_ref g n = ((True, n), [RevParseVerify n])"
    if "succeeded (g (RevParseVerify n))"
    using that by (simp add: resolve_ref_def succeeded_def split: sum.splits)
  moreover have
    "resolve_ref g n = ((True, origin n), [RevParseVerify n, RevParseVerify (origin n)])"
    if "\<not> succeeded (g (RevParseVerify n))" "succeeded (g (RevParseVerify (origin n)))"
    using that by (simp add: resolve_ref_def succeeded_def split: sum.splits)
  moreover have
    "resolve_ref g n = ((False, n), [RevParseVerify n, RevParseVerify (origin n)])"
    if "\<not> succeeded (g (RevParseVerify n))" "\<not> succeeded (g (RevParseVerify (origin n)))"
    using that by (simp add: resolve_ref_def succeeded_def split: sum.splits)
  moreover have
    "lastBranchCommit (fst (processProject_uptodate w pn td bn bb opts)) = None
      \<and> lastMasterCommit (fst (processProject_uptodate w pn td bn bb opts)) = None
      \<and> mergeCommit (fst (processProject_merged w pn td bn bb opts)) = None
      \<and> error (fst (processProject_uptodate w pn td bn bb opts))
          = fetch_failure (w (path_join td pn)) opts
      \<and> error (fst (processProject_merged w pn td bn bb opts))
          = fetch_failure (w (path_join td pn)) opts"
    if "\<not> fst (fst (resolve_ref (w (path_join td pn)) bn))
        \<or> \<not> fst (fst (resolve_ref (w (path_join td pn)) bb))"
  proof -
    have gone: "\<not> (fst (fst (resolve_ref (w (path_join td pn)) bn))
                \<and> fst (fst (resolve_ref (w (path_join td pn)) bb)))"
      using that by blast
    have "lastBranchCommit (fst (processProject_uptodate w pn td bn bb opts)) = None"
      using gone by (auto simp add: uptodate_fst Let_def fetch_step_fst split: sum.splits)
    moreover have "lastMasterCommit (fst (processProject_uptodate w pn td bn bb opts)) = None"
      using gone by (auto simp add: uptodate_fst Let_def fetch_step_fst split: sum.splits)
    moreover have "mergeCommit (fst (processProject_merged w pn td bn bb opts)) = None"
      using gone by (auto simp add: merged_fst Let_def fetch_step_fst split: sum.splits)
    moreover have "error (fst (processProject_uptodate w pn td bn bb opts))
          = fetch_failure (w (path_join td pn)) opts"
      using gone by (auto simp add: uptodate_error Let_def)
    moreover have "error (fst (processProject_merged w pn td bn bb opts))
          = fetch_failure (w (path_join td pn)) opts"
      using gone by (auto simp add: merged_error Let_def)
    ultimately show ?thesis by blast
  qed
  ultimately show ?thesis
    by (simp only: merged_exists uptodate_exists) blast
qed

theorem resolution_local_then_remote_witness:
  "succeeded (repoA (RevParseVerify ''master''))
   \<and> resolve_ref repoA ''master'' = ((True, ''master''), [RevParseVerify ''master''])
   \<and> \<not> succeeded (repoB (RevParseVerify ''feature/y''))
   \<and> succeeded (repoB (RevParseVerify (origin ''feature/y'')))
   \<and> resolve_ref repoB ''feature/y''
       = ((True, ''origin/feature/y''),
          [RevParseVerify ''feature/y'', RevParseVerify ''origin/feature/y''])
   \<and> \<not> succeeded (repoC (RevParseVerify ''feature/z''))
   \<and> \<not> succeeded (repoC (RevParseVerify (origin ''feature/z'')))
   \<and> resolve_ref repoC ''feature/z''
       = ((False, ''feature/z''),
          [RevParseVerify ''feature/z'', RevParseVerify ''origin/feature/z''])
   \<and> \<not> fst (fst (resolve_ref (fleet (path_join ''/work'' ''C'')) ''feature/z''))
   \<and> lastBranchCommit (fst (processProject_uptodate fleet ''C'' ''/work'' ''feature/z''
        ''master'' \<lparr>fetch = True, parallel = ''5''\<rparr>)) = None
   \<and> error (fst (processProject_uptodate fleet ''C'' ''/work'' ''feature/z''
        ''master'' \<lparr>fetch = True, parallel = ''5''\<rparr>)) = None
   \<and> error (fst (processProject_merged fleet ''C'' ''/work'' ''feature/z''
        ''master'' \<lparr>fetch = True, parallel = ''5''\<rparr>)) = None"
proof -
  have a: "succeeded (repoA (RevParseVerify ''master''))"
    by (simp add: example_defs)
  have b: "\<not> succeeded (repoB (RevParseVerify ''feature/y''))"
    "succeeded (repoB (RevParseVerify (origin ''feature/y'')))"
    by (simp_all add: example_defs)
  have c: "\<not> succeeded (repoC (RevParseVerify ''feature/z''))"
    "\<not> succeeded (repoC (RevParseVerify (origin ''feature/z'')))"
    by (simp_all add: example_defs)
  have c': "\<not> fst (fst (resolve_ref (fleet (path_join ''/work'' ''C'')) ''feature/z''))"
    by (simp add: example_defs resolve_ref_def)
  have f: "fetch_failure (fleet (path_join ''/work'' ''C''))
             \<lparr>fetch = True, parallel = ''5''\<rparr> = None"
    by (simp add: example_defs fetch_failure_def)
  note A = resolution_local_then_remote [of repoA "''master''"]
  note B = resolution_local_then_remote [of repoB "''feature/y''"]
  note C = resolution_local_then_remote [of repoC "''feature/z''" fleet "''/work''" "''C''"
      "''feature/z''" "''master''" "\<lparr>fetch = True, parallel = ''5''\<rparr>"]
  show ?thesis
    using a b c c' f A B C by (simp add: origin_def)
qed

text \<open>
  C3. When both names resolve to commits, \<open>merged\<close> answers \<open>isMerged\<close> exactly when
  the commit of the branch is an ancestor of the commit of the base branch, and
  \<open>uptodate\<close> answers \<open>isUpToDate\<close> exactly when the commit of the base branch is an
  ancestor of the commit of the branch. When a name yields no commit both answers are
  negative.
\<close>

theorem verdict_is_ancestry_of_resolved_commits:
  "(resolved_commit (w (path_join td pn)) bn = Some cb
      \<and> resolved_commit (w (path_join td pn)) bb = Some cm \<longrightarrow>
        isMerged (fst (processProject_merged w pn td bn bb opts))
          = is_ancestor (w (path_join td pn)) cb cm
      \<and> isUpToDate (fst (processProject_uptodate w pn td bn bb opts))
          = is_ancestor (w (path_join td pn)) cm cb)
   \<and> (resolved_commit (w (path_join td pn)) bn = None
      \<or> resolved_commit (w (path_join td pn)) bb = None \<longrightarrow>
        \<not> isMerged (fst (processProject_merged w pn td bn bb opts))
      \<and> \<not> isUpToDate (fst (processProject_uptodate w pn td bn bb opts)))"
  by (auto simp add: merged_isMerged uptodate_isUpToDate Let_def split: option.splits)

theorem verdict_is_ancestry_of_resolved_commits_witness:
  "resolved_commit (fleet (path_join ''/work'' ''A'')) ''feature/x'' = Some ''c1''
   \<and> resolved_commit (fleet (path_join ''/work'' ''A'')) ''master'' = Some ''c2''
   \<and> is_ancestor (fleet (path_join ''/work'' ''A'')) ''c1'' ''c2''
   \<and> \<not> is_ancestor (fleet (path_join ''/work'' ''A'')) ''c2'' ''c1''
   \<and> isMerged (fst (processProject_merged fleet ''A'' ''/work'' ''feature/x'' ''master''
        \<lparr>fetch = True, parallel = ''5''\<rparr>))
   \<and> \<not> isUpToDate (fst (processProject_uptodate fleet ''A'' ''/work'' ''feature/x'' ''master''
        \<lparr>fetch = True, parallel = ''5''\<rparr>))
   \<and> resolved_commit (fleet (path_join ''/work'' ''C'')) ''feature/z'' = None
   \<and> \<not> isMerged (fst (processProject_merged fleet ''C'' ''/work'' ''feature/z'' ''master''
        \<lparr>fetch = True, parallel = ''5''\<rparr>))
   \<and> \<not> isUpToDate (fst (processProject_uptodate fleet ''C'' ''/work'' ''feature/z'' ''master''
        \<lparr>fetch = True, parallel = ''5''\<rparr>))"
proof -
  have a: "resolved_commit (fleet (path_join ''/work'' ''A'')) ''feature/x'' = Some ''c1''"
    "resolved_commit (fleet (path_join ''/work'' ''A'')) ''master'' = Some ''c2''"
    by (simp_all add: example_defs resolved_commit_def resolve_ref_def)
  have b: "is_ancestor (fleet (path_join ''/work'' ''A'')) ''c1'' ''c2''"
    "\<not> is_ancestor (fleet (path_join ''/work'' ''A'')) ''c2'' ''c1''"
    by (simp_all add: example_defs is_ancestor_def)
  have c: "resolved_commit (fleet (path_join ''/work'' ''C'')) ''feature/z'' = None"
    by (simp add: example_defs resolved_commit_def resolve_ref_def)
  note A = verdict_is_ancestry_of_resolved_commits
    [of fleet "''/work''" "''A''" "''feature/x''" "''c1''" "''master''" "''c2''"
       "\<lparr>fetch = True, parallel = ''5''\<rparr>"]
  note C = verdict_is_ancestry_of_resolved_commits
    [of fleet "''/work''" "''C''" "''feature/z''" _ "''master''" _
       "\<lparr>fetch = True, parallel = ''5''\<rparr>"]
  show ?thesis
    using a b c A C by simp
qed

text \<open>
  C2, as stated, fails: a result with a missing branch has the \<open>error\<close> field set when
  the fetch failed. In \<open>repoD\<close> the fetch times out and \<open>feature/z\<close> does not exist.
\<close>

theorem missing_ref_error_unset_counterexample:
  "\<not> branchExists (fst (processProject_merged fleet ''D'' ''/work'' ''feature/z'' ''master''
        \<lparr>fetch = True, parallel = ''5''\<rparr>))
   \<and> error (fst (processProject_merged fleet ''D'' ''/work'' ''feature/z'' ''master''
        \<lparr>fetch = True, parallel = ''5''\<rparr>))
       = Some (FetchFailed ''Error: spawnSync /bin/sh ETIMEDOUT'')
   \<and> \<not> branchExists (fst (processProject_uptodate fleet ''D'' ''/work'' ''feature/z'' ''master''
        \<lparr>fetch = True, parallel = ''5''\<rparr>))
   \<and> error (fst (processProject_uptodate fleet ''D'' ''/work'' ''feature/z'' ''master''
        \<lparr>fetch = True, parallel = ''5''\<rparr>))
       = Some (FetchFailed ''Error: spawnSync /bin/sh ETIMEDOUT'')"
  by (simp add: job_defs example_defs)

text \<open>
  C2, amended. When the branch or the base branch does not exist, the verdict is negative
  (\<open>isMerged\<close>, \<open>isUpToDate\<close> and \<open>hasMasterChanges\<close> are false, \<open>behindCommits\<close> is 0) and
  the job issues no command beyond the fetch and the existence checks, so no ancestry is
  computed. The \<open>error\<close> field is unset when the fetch was skipped or succeeded; when the
  fetch failed it holds the failure of the fetch.
\<close>

theorem missing_ref_short_circuit:
  assumes "\<not> branchExists (fst (processProject_merged w pn td bn bb opts))
           \<or> \<not> masterExists (fst (processProject_merged w pn td bn bb opts))
           \<or> \<not> branchExists (fst (processProject_uptodate w pn td bn bb opts))
           \<or> \<not> masterExists (fst (processProject_uptodate w pn td bn bb opts))"
  shows "\<not> isMerged (fst (processProject_merged w pn td bn bb opts))
       \<and> \<not> isUpToDate (fst (processProject_uptodate w pn td bn bb opts))
       \<and> \<not> hasMasterChanges (fst (processProject_uptodate w pn td bn bb opts))
       \<and> behindCommits (fst (processProject_uptodate w pn td bn bb opts)) = 0
       \<and> snd (processProject_merged w pn td bn bb opts)
           = (if fetch opts then [FetchAllPrune] else [])
             @ snd (resolve_ref (w (path_join td pn)) bb)
             @ snd (resolve_ref (w (path_join td pn)) bn)
       \<and> snd (processProject_uptodate w pn td bn bb opts)
           = (if fetch opts then [FetchAllPrune] else [])
             @ snd (resolve_ref (w (path_join td pn)) bb)
             @ snd (resolve_ref (w (path_join td pn)) bn)
       \<and> list_all (\<lambda>c. \<not> ancestry_cmd c) (snd (processProject_merged w pn td bn bb opts))
       \<and> list_all (\<lambda>c. \<not> ancestry_cmd c) (snd (processProject_uptodate w pn td bn bb opts))
       \<and> error (fst (processProject_merged w pn td bn bb opts))
           = (if fetch opts
              then (case w (path_join td pn) FetchAllPrune of
                      Inl e \<Rightarrow> Some (FetchFailed e)
                    | Inr _ \<Rightarrow> None)
              else None)
       \<and> error (fst (processProject_uptodate w pn td bn bb opts))
           = (if fetch opts
              then (case w (path_join td pn) FetchAllPrune of
                      Inl e \<Rightarrow> Some (FetchFailed e)
                    | Inr _ \<Rightarrow> None)
              else None)"
proof -
  let ?g = "w (path_join td pn)"
  have gone: "\<not> (fst (fst (resolve_ref ?g bn)) \<and> fst (fst (resolve_ref ?g bb)))"
    using assms by (auto simp add: merged_exists uptodate_exists)
  have none: "resolved_commit ?g bn = None \<or> resolved_commit ?g bb = None"
    using gone by (auto simp add: resolved_commit_def case_prod_beta)
  have v1: "\<not> isMerged (fst (processProject_merged w pn td bn bb opts))"
    using none by (auto simp add: merged_isMerged Let_def split: option.splits)
  have v2: "\<not> isUpToDate (fst (processProject_uptodate w pn td bn bb opts))"
    using none by (auto simp add: uptodate_isUpToDate Let_def split: option.splits)
  have v3: "\<not> hasMasterChanges (fst (processProject_uptodate w pn td bn bb opts))"
    using none by (auto simp add: uptodate_hasMasterChanges Let_def split: option.splits)
  have v4: "behindCommits (fst (processProject_uptodate w pn td bn bb opts)) = 0"
    using none by (auto simp add: uptodate_behindCommits Let_def split: option.splits)
  have t1: "snd (processProject_merged w pn td bn bb opts)
           = (if fetch opts then [FetchAllPrune] else [])
             @ snd (resolve_ref ?g bb) @ snd (resolve_ref ?g bn)"
    using gone by (auto simp add: merged_snd Let_def)
  have t2: "snd (processProject_uptodate w pn td bn bb opts)
           = (if fetch opts then [FetchAllPrune] else [])
             @ snd (resolve_ref ?g bb) @ snd (resolve_ref ?g bn)"
    using gone by (auto simp add: uptodate_snd Let_def)
  have a1: "list_all (\<lambda>c. \<not> ancestry_cmd c) (snd (processProject_merged w pn td bn bb opts))"
    by (simp add: t1 resolve_ref_trace)
  have a2: "list_all (\<lambda>c. \<not> ancestry_cmd c) (snd (processProject_uptodate w pn td bn bb opts))"
    by (simp add: t2 resolve_ref_trace)
  have e1: "error (fst (processProject_merged w pn td bn bb opts)) = fetch_failure ?g opts"
    using gone by (auto simp add: merged_error Let_def)
  have e2: "error (fst (processProject_uptodate w pn td bn bb opts)) = fetch_failure ?g opts"
    using gone by (auto simp add: uptodate_error Let_def)
  show ?thesis
    using v1 v2 v3 v4 t1 t2 a1 a2 e1 e2 by (simp add: fetch_failure_def)
qed

theorem missing_ref_short_circuit_witness:
  "\<not> branchExists (fst (processProject_merged fleet ''C'' ''/work'' ''feature/z'' ''master''
        \<lparr>fetch = True, parallel = ''5''\<rparr>))
   \<and> \<not> isMerged (fst (processProject_merged fleet ''C'' ''/work'' ''feature/z'' ''master''
        \<lparr>fetch = True, parallel = ''5''\<rparr>))
   \<and> \<not> isUpToDate (fst (processProject_uptodate fleet ''C'' ''/work'' ''feature/z'' ''master''
        \<lparr>fetch = True, parallel = ''5''\<rparr>))
   \<and> behindCommits (fst (processProject_uptodate fleet ''C'' ''/work'' ''feature/z'' ''master''
        \<lparr>fetch = True, parallel = ''5''\<rparr>)) = 0
   \<and> snd (processProject_uptodate fleet ''C'' ''/work'' ''feature/z'' ''master''
        \<lparr>fetch = True, parallel = ''5''\<rparr>)
       = [FetchAllPrune, RevParseVerify ''master'', RevParseVerify ''feature/z'',
          RevParseVerify ''origin/feature/z'']
   \<and> error (fst (processProject_merged fleet ''C'' ''/work'' ''feature/z'' ''master''
        \<lparr>fetch = True, parallel = ''5''\<rparr>)) = None
   \<and> error (fst (processProject_uptodate fleet ''C'' ''/work'' ''feature/z'' ''master''
        \<lparr>fetch = True, parallel = ''5''\<rparr>)) = None"
proof -
  have gone: "\<not> branchExists (fst (processProject_merged fleet ''C'' ''/work'' ''feature/z''
        ''master'' \<lparr>fetch = True, parallel = ''5''\<rparr>))"
    by (simp add: merged_exists resolve_ref_def example_defs)
  have r: "snd (resolve_ref (fleet (path_join ''/work'' ''C'')) ''master'')
             = [RevParseVerify ''master'']"
    "snd (resolve_ref (fleet (path_join ''/work'' ''C'')) ''feature/z'')
             = [RevParseVerify ''feature/z'', RevParseVerify ''origin/feature/z'']"
    by (simp_all add: resolve_ref_def example_defs)
  have f: "fleet (path_join ''/work'' ''C'') FetchAllPrune = Inr []"
    by (simp add: example_defs)
  have "\<not> branchExists (fst (processProject_merged fleet ''C'' ''/work'' ''feature/z''
        ''master'' \<lparr>fetch = True, parallel = ''5''\<rparr>))
     \<or> \<not> masterExists (fst (processProject_merged fleet ''C'' ''/work'' ''feature/z''
        ''master'' \<lparr>fetch = True, parallel = ''5''\<rparr>))
     \<or> \<not> branchExists (fst (processProject_uptodate fleet ''C'' ''/work'' ''feature/z''
        ''master'' \<lparr>fetch = True, parallel = ''5''\<rparr>))
     \<or> \<not> masterExists (fst (processProject_uptodate fleet ''C'' ''/work'' ''feature/z''
        ''master'' \<lparr>fetch = True, parallel = ''5''\<rparr>))"
    using gone by blast
  from missing_ref_short_circuit [OF this] gone r f
  show ?thesis by simp
qed

text \<open>
  C7. With a positive \<open>parallel\<close> both commands end, and the array of results holds the
  result of each discovered project at the position of that project: the order of the
  results is the order of discovery.
\<close>

theorem results_in_discovery_order:
  assumes "parseInt (parallel opts) = Num p" and "0 < p"
  shows "(\<exists>st. mergedCommand w td dirs bn bb opts = Some st
            \<and> results st = map (\<lambda>d. fst (processProject_merged w d td bn bb opts)) dirs
            \<and> map name (results st) = dirs)
       \<and> (\<exists>st. uptodateCommand w td dirs bn bb opts = Some st
            \<and> results st = map (\<lambda>d. fst (processProject_uptodate w d td bn bb opts)) dirs
            \<and> map name (results st) = dirs)"
proof -
  let ?m = "\<lambda>d. fst (processProject_merged w d td bn bb opts)"
  let ?u = "\<lambda>d. fst (processProject_uptodate w d td bn bb opts)"
  have nm: "map name (map ?m dirs) = dirs"
    by (simp add: merged_name comp_def)
  have nu: "map name (map ?u dirs) = dirs"
    by (simp add: uptodate_name comp_def)
  from run_waves_total [OF assms, of ?m dirs]
  obtain sm where "run_waves ?m opts dirs = Some sm" "results sm = map ?m dirs"
    by blast
  then have m: "\<exists>st. mergedCommand w td dirs bn bb opts = Some st
            \<and> results st = map ?m dirs \<and> map name (results st) = dirs"
    using nm by (simp add: mergedCommand_def)
  from run_waves_total [OF assms, of ?u dirs]
  obtain su where "run_waves ?u opts dirs = Some su" "results su = map ?u dirs"
    by blast
  then have u: "\<exists>st. uptodateCommand w td dirs bn bb opts = Some st
            \<and> results st = map ?u dirs \<and> map name (results st) = dirs"
    using nu by (simp add: uptodateCommand_def)
  from m u show ?thesis by (rule conjI)
qed

theorem results_in_discovery_order_witness:
  "parseInt (parallel \<lparr>fetch = True, parallel = ''3''\<rparr>) = Num 3 \<and> (0 :: int) < 3
   \<and> (\<exists>st. mergedCommand fleet ''/work'' [''A'', ''B'', ''C'', ''D''] ''feature/x'' ''master''
              \<lparr>fetch = True, parallel = ''3''\<rparr> = Some st
          \<and> results st = map (\<lambda>d. fst (processProject_merged fleet d ''/work'' ''feature/x''
                 ''master'' \<lparr>fetch = True, parallel = ''3''\<rparr>)) [''A'', ''B'', ''C'', ''D'']
          \<and> map name (results st) = [''A'', ''B'', ''C'', ''D''])
   \<and> (\<exists>st. uptodateCommand fleet ''/work'' [''A'', ''B'', ''C'', ''D''] ''feature/x'' ''master''
              \<lparr>fetch = True, parallel = ''3''\<rparr> = Some st
          \<and> results st = map (\<lambda>d. fst (processProject_uptodate fleet d ''/work'' ''feature/x''
                 ''master'' \<lparr>fetch = True, parallel = ''3''\<rparr>)) [''A'', ''B'', ''C'', ''D'']
          \<and> map name (results st) = [''A'', ''B'', ''C'', ''D''])"
proof -
  have par: "parseInt (parallel \<lparr>fetch = True, parallel = ''3''\<rparr>) = Num 3"
    by (simp add: parseInt_def digits_value_def radix_digit_def digit_value_def is_space_def)
  have pos: "(0 :: int) < 3" by simp
  note run = results_in_discovery_order [OF par pos, of fleet "''/work''"
         "[''A'', ''B'', ''C'', ''D'']" "''feature/x''" "''master''"]
  show ?thesis by (rule conjI [OF par conjI [OF pos run]])
qed

text \<open>
  C8. With a positive \<open>parallel\<close> both commands call \<open>progressBar.update\<close> once at the
  end of every wave, with the number of projects handled so far; the bar was created with
  the number of discovered projects as its total. The reported values never decrease, and
  the last call reports the number of discovered projects.
\<close>

theorem progress_after_each_wave:
  assumes "parseInt (parallel opts) = Num p" and "0 < p"
  shows "(\<exists>st. mergedCommand w td dirs bn bb opts = Some st \<and> progress_reported p dirs st)
       \<and> (\<exists>st. uptodateCommand w td dirs bn bb opts = Some st \<and> progress_reported p dirs st)"
proof -
  let ?m = "\<lambda>d. fst (processProject_merged w d td bn bb opts)"
  let ?u = "\<lambda>d. fst (processProject_uptodate w d td bn bb opts)"
  from run_waves_total [OF assms, of ?m dirs]
  obtain sm where "run_waves ?m opts dirs = Some sm" "progress_reported p dirs sm"
    by blast
  then have m: "\<exists>st. mergedCommand w td dirs bn bb opts = Some st
      \<and> progress_reported p dirs st"
    by (simp add: mergedCommand_def)
  from run_waves_total [OF assms, of ?u dirs]
  obtain su where "run_waves ?u opts dirs = Some su" "progress_reported p dirs su"
    by blast
  then have u: "\<exists>st. uptodateCommand w td dirs bn bb opts = Some st
      \<and> progress_reported p dirs st"
    by (simp add: uptodateCommand_def)
  from m u show ?thesis by (rule conjI)
qed

theorem progress_after_each_wave_witness:
  "parseInt (parallel \<lparr>fetch = True, parallel = ''3''\<rparr>) = Num 3 \<and> (0 :: int) < 3
   \<and> (\<exists>st. mergedCommand fleet ''/work'' [''A'', ''B'', ''C'', ''D''] ''feature/x'' ''master''
              \<lparr>fetch = True, parallel = ''3''\<rparr> = Some st
          \<and> progress_reported 3 [''A'', ''B'', ''C'', ''D''] st)
   \<and> (\<exists>st. uptodateCommand fleet ''/work'' [''A'', ''B'', ''C'', ''D''] ''feature/x'' ''master''
              \<lparr>fetch = True, parallel = ''3''\<rparr> = Some st
          \<and> progress_reported 3 [''A'', ''B'', ''C'', ''D''] st)"
proof -
  have par: "parseInt (parallel \<lparr>fetch = True, parallel = ''3''\<rparr>) = Num 3"
    by (simp add: parseInt_def digits_value_def radix_digit_def digit_value_def is_space_def)
  have pos: "(0 :: int) < 3" by simp
  note run = progress_after_each_wave [OF par pos, of fleet "''/work''"
         "[''A'', ''B'', ''C'', ''D'']" "''feature/x''" "''master''"]
  show ?thesis by (rule conjI [OF par conjI [OF pos run]])
qed

section \<open>The count of missing commits\<close>

lemma strip_sign_digit:
  assumes "list_all is_digit s"
  shows "fst (strip_sign (dropWhile is_space s)) = 1"
proof (cases "dropWhile is_space s")
  case Nil
  then show ?thesis by (simp only: strip_sign.simps fst_conv)
next
  case (Cons c t)
  then have "c \<in> set (dropWhile is_space s)" by (simp only: list.set_intros)
  then have "c \<in> set s" by (rule set_dropWhileD)
  then have "is_digit c" using assms by (simp add: list_all_iff)
  then have "c \<noteq> CHR ''-''" by (auto simp add: is_digit_def)
  then show ?thesis unfolding Cons by simp
qed

lemma parseInt_sign:
  "fst (strip_sign (dropWhile is_space s)) = 1 \<Longrightarrow> 0 \<le> or_zero (parseInt s)"
  by (simp add: parseInt_def Let_def case_prod_beta)

lemma parseInt_digits_nonneg:
  "list_all is_digit s \<Longrightarrow> 0 \<le> or_zero (parseInt s)"
  by (rule parseInt_sign [OF strip_sign_digit])

lemma uptodate_count_in_trace:
  "RevListCount bn bb \<in> set (snd (processProject_uptodate w pn td bn bb opts))
     = (let g = w (path_join td pn) in
        case resolved_commit g bb of
          None \<Rightarrow> False
        | Some cm \<Rightarrow> (case resolved_commit g bn of
                       None \<Rightarrow> False
                     | Some cb \<Rightarrow> \<not> is_ancestor g cm cb))"
proof -
  have v: "RevListCount bn bb \<notin> set (snd (resolve_ref g n))" for g n
    by (simp add: resolve_ref_def split: sum.splits)
  show ?thesis
    by (simp add: uptodate_snd Let_def v resolved_commit_def is_ancestor_def case_prod_beta
          split: sum.splits)
qed

text \<open>
  C9. \<open>behindCommits\<close> is an integer that is not negative, given that Git prints the
  count as a line of decimal digits; and it is 0 whenever \<open>isUpToDate\<close> holds, whenever
  the count was not asked for (a missing branch or base branch, an error of the commit
  lookup), whenever the count command failed, and whenever its output is not a number.
\<close>

theorem behindCommits_invariant:
  "(prints_count (w (path_join td pn) (RevListCount bn bb)) \<longrightarrow>
      0 \<le> behindCommits (fst (processProject_uptodate w pn td bn bb opts)))
   \<and> (isUpToDate (fst (processProject_uptodate w pn td bn bb opts)) \<longrightarrow>
      behindCommits (fst (processProject_uptodate w pn td bn bb opts)) = 0)
   \<and> (RevListCount bn bb \<notin> set (snd (processProject_uptodate w pn td bn bb opts)) \<longrightarrow>
      behindCommits (fst (processProject_uptodate w pn td bn bb opts)) = 0)
   \<and> (\<not> branchExists (fst (processProject_uptodate w pn td bn bb opts))
      \<or> \<not> masterExists (fst (processProject_uptodate w pn td bn bb opts)) \<longrightarrow>
      RevListCount bn bb \<notin> set (snd (processProject_uptodate w pn td bn bb opts)))
   \<and> (error (fst (processProject_uptodate w pn td bn bb opts)) = Some (CheckFailed e) \<longrightarrow>
      RevListCount bn bb \<notin> set (snd (processProject_uptodate w pn td bn bb opts)))
   \<and> (\<not> succeeded (w (path_join td pn) (RevListCount bn bb)) \<longrightarrow>
      behindCommits (fst (processProject_uptodate w pn td bn bb opts)) = 0)
   \<and> (w (path_join td pn) (RevListCount bn bb) = Inr out \<and> parseInt (trim out) = NaN \<longrightarrow>
      behindCommits (fst (processProject_uptodate w pn td bn bb opts)) = 0)"
proof -
  let ?g = "w (path_join td pn)"
  let ?R = "fst (processProject_uptodate w pn td bn bb opts)"
  let ?T = "snd (processProject_uptodate w pn td bn bb opts)"
  have 1: "0 \<le> behindCommits ?R" if "prints_count (?g (RevListCount bn bb))"
    using that parseInt_digits_nonneg
    by (auto simp add: uptodate_behindCommits Let_def prints_count_def
          split: option.splits sum.splits)
  have 2: "behindCommits ?R = 0" if "isUpToDate ?R"
    using that
    by (auto simp add: uptodate_behindCommits uptodate_isUpToDate Let_def
          split: option.splits)
  have 3: "behindCommits ?R = 0" if "RevListCount bn bb \<notin> set ?T"
    using that
    by (auto simp add: uptodate_behindCommits uptodate_count_in_trace Let_def
          split: option.splits)
  have 4: "RevListCount bn bb \<notin> set ?T" if "\<not> branchExists ?R \<or> \<not> masterExists ?R"
    using that
    by (auto simp add: uptodate_exists uptodate_count_in_trace Let_def resolved_commit_def
          case_prod_beta split: option.splits)
  have 5: "RevListCount bn bb \<notin> set ?T" if "error ?R = Some (CheckFailed e)"
    using that
    by (auto simp add: uptodate_error uptodate_count_in_trace Let_def resolved_commit_def
          fetch_failure_def case_prod_beta split: option.splits sum.splits if_splits)
  have 6: "behindCommits ?R = 0" if "\<not> succeeded (?g (RevListCount bn bb))"
    using that
    by (auto simp add: uptodate_behindCommits Let_def succeeded_def
          split: option.splits sum.splits)
  have 7: "behindCommits ?R = 0"
    if "?g (RevListCount bn bb) = Inr out \<and> parseInt (trim out) = NaN"
    using that
    by (auto simp add: uptodate_behindCommits Let_def split: option.splits)
  from 1 2 3 4 5 6 7 show ?thesis by blast
qed

theorem behindCommits_invariant_witness:
  "prints_count (fleet (path_join ''/work'' ''A'') (RevListCount ''feature/x'' ''master''))
   \<and> 0 \<le> behindCommits (fst (processProject_uptodate fleet ''A'' ''/work'' ''feature/x''
            ''master'' \<lparr>fetch = True, parallel = ''5''\<rparr>))
   \<and> isUpToDate (fst (processProject_uptodate fleet ''A'' ''/work'' ''master''
            ''feature/x'' \<lparr>fetch = True, parallel = ''5''\<rparr>))
   \<and> behindCommits (fst (processProject_uptodate fleet ''A'' ''/work'' ''master''
            ''feature/x'' \<lparr>fetch = True, parallel = ''5''\<rparr>)) = 0
   \<and> \<not> branchExists (fst (processProject_uptodate fleet ''C'' ''/work'' ''feature/z''
            ''master'' \<lparr>fetch = True, parallel = ''5''\<rparr>))
   \<and> RevListCount ''feature/z'' ''master''
        \<notin> set (snd (processProject_uptodate fleet ''C'' ''/work'' ''feature/z''
            ''master'' \<lparr>fetch = True, parallel = ''5''\<rparr>))
   \<and> behindCommits (fst (processProject_uptodate fleet ''C'' ''/work'' ''feature/z''
            ''master'' \<lparr>fetch = True, parallel = ''5''\<rparr>)) = 0
   \<and> error (fst (processProject_uptodate fleet ''E'' ''/work'' ''feature/x''
            ''master'' \<lparr>fetch = True, parallel = ''5''\<rparr>))
        = Some (CheckFailed ''fatal: ambiguous argument'')
   \<and> RevListCount ''feature/x'' ''master''
        \<notin> set (snd (processProject_uptodate fleet ''E'' ''/work'' ''feature/x''
            ''master'' \<lparr>fetch = True, parallel = ''5''\<rparr>))
   \<and> \<not> succeeded (fleet (path_join ''/work'' ''B'') (RevListCount ''feature/y'' ''master''))
   \<and> behindCommits (fst (processProject_uptodate fleet ''B'' ''/work'' ''feature/y''
            ''master'' \<lparr>fetch = True, parallel = ''5''\<rparr>)) = 0
   \<and> fleet (path_join ''/work'' ''F'') (RevListCount ''feature/x'' ''master'') = Inr []
   \<and> parseInt (trim []) = NaN
   \<and> behindCommits (fst (processProject_uptodate fleet ''F'' ''/work'' ''feature/x''
            ''master'' \<lparr>fetch = True, parallel = ''5''\<rparr>)) = 0"
proof -
  let ?o = "\<lparr>fetch = True, parallel = ''5''\<rparr>"
  have h1: "prints_count (fleet (path_join ''/work'' ''A'')
              (RevListCount ''feature/x'' ''master''))"
    by (simp add: example_defs prints_count_def is_digit_def)
  have h2: "isUpToDate (fst (processProject_uptodate fleet ''A'' ''/work'' ''master''
              ''feature/x'' ?o))"
    by (simp add: job_defs example_defs)
  have h4: "\<not> branchExists (fst (processProject_uptodate fleet ''C'' ''/work'' ''feature/z''
              ''master'' ?o))"
    by (simp add: job_defs example_defs)
  have h5: "error (fst (processProject_uptodate fleet ''E'' ''/work'' ''feature/x''
              ''master'' ?o)) = Some (CheckFailed ''fatal: ambiguous argument'')"
    by (simp add: job_defs example_defs)
  have h6: "\<not> succeeded (fleet (path_join ''/work'' ''B'')
              (RevListCount ''feature/y'' ''master''))"
    by (simp add: example_defs)
  have h7: "fleet (path_join ''/work'' ''F'') (RevListCount ''feature/x'' ''master'') = Inr []
            \<and> parseInt (trim []) = NaN"
    by (simp add: example_defs parseInt_def)
  note A1 = behindCommits_invariant [where w = fleet and td = "''/work''" and pn = "''A''"
      and bn = "''feature/x''" and bb = "''master''" and opts = ?o]
  note A2 = behindCommits_invariant [where w = fleet and td = "''/work''" and pn = "''A''"
      and bn = "''master''" and bb = "''feature/x''" and opts = ?o]
  note C = behindCommits_invariant [where w = fleet and td = "''/work''" and pn = "''C''"
      and bn = "''feature/z''" and bb = "''master''" and opts = ?o]
  note E = behindCommits_invariant [where w = fleet and td = "''/work''" and pn = "''E''"
      and bn = "''feature/x''" and bb = "''master''" and opts = ?o
      and e = "''fatal: ambiguous argument''"]
  note B = behindCommits_invariant [where w = fleet and td = "''/work''" and pn = "''B''"
      and bn = "''feature/y''" and bb = "''master''" and opts = ?o]
  note F = behindCommits_invariant [where w = fleet and td = "''/work''" and pn = "''F''"
      and bn = "''feature/x''" and bb = "''master''" and opts = ?o and out = "[]"]
  have c1: "0 \<le> behindCommits (fst (processProject_uptodate fleet ''A'' ''/work''
              ''feature/x'' ''master'' ?o))"
    by (rule A1 [THEN conjunct1, THEN mp, OF h1])
  have c2: "behindCommits (fst (processProject_uptodate fleet ''A'' ''/work'' ''master''
              ''feature/x'' ?o)) = 0"
    by (rule A2 [THEN conjunct2, THEN conjunct1, THEN mp, OF h2])
  have c4: "RevListCount ''feature/z'' ''master''
              \<notin> set (snd (processProject_uptodate fleet ''C'' ''/work'' ''feature/z''
                  ''master'' ?o))"
    by (rule C [THEN conjunct2, THEN conjunct2, THEN conjunct2, THEN conjunct1, THEN mp,
                OF disjI1, OF h4])
  have c3: "behindCommits (fst (processProject_uptodate fleet ''C'' ''/work'' ''feature/z''
              ''master'' ?o)) = 0"
    by (rule C [THEN conjunct2, THEN conjunct2, THEN conjunct1, THEN mp, OF c4])
  have c5: "RevListCount ''feature/x'' ''master''
              \<notin> set (snd (processProject_uptodate fleet ''E'' ''/work'' ''feature/x''
                  ''master'' ?o))"
    by (rule E [THEN conjunct2, THEN conjunct2, THEN conjunct2, THEN conjunct2,
                THEN conjunct1, THEN mp, OF h5])
  have c6: "behindCommits (fst (processProject_uptodate fleet ''B'' ''/work'' ''feature/y''
              ''master'' ?o)) = 0"
    by (rule B [THEN conjunct2, THEN conjunct2, THEN conjunct2, THEN conjunct2,
                THEN conjunct2, THEN conjunct1, THEN mp, OF h6])
  have c7: "behindCommits (fst (processProject_uptodate fleet ''F'' ''/work'' ''feature/x''
              ''master'' ?o)) = 0"
    by (rule F [THEN conjunct2, THEN conjunct2, THEN conjunct2, THEN conjunct2,
                THEN conjunct2, THEN conjunct2, THEN mp, OF h7])
  from h1 c1 h2 c2 h4 c4 c3 h5 c5 h6 c6 h7 c7 show ?thesis by (intro conjI) simp_all
qed

text \<open>
  C5, as stated, fails for \<open>merged\<close>: its result record has no field for a count, and a
  negative ancestry test ends the job without asking Git for one. In \<open>repoD\<close> the branch
  \<open>feature/x\<close> is not merged and \<open>master\<close> has one commit that it lacks.
\<close>

theorem merged_records_no_count_counterexample:
  "processProject_merged fleet ''D'' ''/work'' ''feature/x'' ''master''
       \<lparr>fetch = False, parallel = ''5''\<rparr>
     = (\<lparr>name = ''D'', path = ''/work/D'', branchExists = True, masterExists = True,
         error = None, fetchSuccess = True,
         isMerged = False, mergeCommit = None, mergeDate = None\<rparr>,
        [RevParseVerify ''master'', RevParseVerify ''feature/x'',
         RevParse ''feature/x'', RevParse ''master'', MergeBaseIsAncestor ''c3'' ''c2''])
   \<and> fleet ''/work/D'' (RevListCount ''feature/x'' ''master'') = Inr (line ''1'')"
  by (simp add: job_defs example_defs)

text \<open>
  C5, amended. In \<open>uptodate\<close>, when the branch and the base branch both exist under the
  requested (local) names, both commits are obtained and the base commit is not an
  ancestor of the branch commit, the job asks Git for the count of
  \<open>branch..base\<close> and records in \<open>behindCommits\<close> the number printed (0 when the
  command fails or prints no number), with \<open>isUpToDate\<close> false and \<open>hasMasterChanges\<close>
  true. \<open>merged\<close> records no count.
\<close>

theorem uptodate_records_count:
  assumes "succeeded (w (path_join td pn) (RevParseVerify bb))"
    and "succeeded (w (path_join td pn) (RevParseVerify bn))"
    and "resolved_commit (w (path_join td pn)) bb = Some cm"
    and "resolved_commit (w (path_join td pn)) bn = Some cb"
    and "\<not> is_ancestor (w (path_join td pn)) cm cb"
  shows "\<not> isUpToDate (fst (processProject_uptodate w pn td bn bb opts))
       \<and> hasMasterChanges (fst (processProject_uptodate w pn td bn bb opts))
       \<and> snd (fst (resolve_ref (w (path_join td pn)) bn)) = bn
       \<and> snd (fst (resolve_ref (w (path_join td pn)) bb)) = bb
       \<and> RevListCount bn bb \<in> set (snd (processProject_uptodate w pn td bn bb opts))
       \<and> behindCommits (fst (processProject_uptodate w pn td bn bb opts))
           = (case w (path_join td pn) (RevListCount bn bb) of
                Inr out \<Rightarrow> or_zero (parseInt (trim out))
              | Inl _ \<Rightarrow> 0)
       \<and> (w (path_join td pn) (RevListCount bn bb) = Inr out
            \<and> parseInt (trim out) = Num k \<longrightarrow>
          behindCommits (fst (processProject_uptodate w pn td bn bb opts)) = k)"
proof -
  let ?g = "w (path_join td pn)"
  let ?R = "fst (processProject_uptodate w pn td bn bb opts)"
  have 1: "\<not> isUpToDate ?R"
    using assms(3-5) by (simp add: uptodate_isUpToDate Let_def)
  have 2: "hasMasterChanges ?R"
    using assms(3-5) by (simp add: uptodate_hasMasterChanges Let_def)
  have 3: "snd (fst (resolve_ref ?g bn)) = bn"
    using assms(2) by (simp add: resolve_ref_def succeeded_def split: sum.splits)
  have 4: "snd (fst (resolve_ref ?g bb)) = bb"
    using assms(1) by (simp add: resolve_ref_def succeeded_def split: sum.splits)
  have 5: "RevListCount bn bb \<in> set (snd (processProject_uptodate w pn td bn bb opts))"
    using assms(3-5) by (simp add: uptodate_count_in_trace Let_def)
  have 6: "behindCommits ?R
           = (case ?g (RevListCount bn bb) of
                Inr out \<Rightarrow> or_zero (parseInt (trim out))
              | Inl _ \<Rightarrow> 0)"
    using assms(3-5) by (simp add: uptodate_behindCommits Let_def)
  have 7: "behindCommits ?R = k"
    if "?g (RevListCount bn bb) = Inr out \<and> parseInt (trim out) = Num k"
    using that 6 by simp
  from 1 2 3 4 5 6 7 show ?thesis by blast
qed

theorem uptodate_records_count_witness:
  "succeeded (fleet (path_join ''/work'' ''D'') (RevParseVerify ''master''))
   \<and> succeeded (fleet (path_join ''/work'' ''D'') (RevParseVerify ''feature/x''))
   \<and> resolved_commit (fleet (path_join ''/work'' ''D'')) ''master'' = Some ''c2''
   \<and> resolved_commit (fleet (path_join ''/work'' ''D'')) ''feature/x'' = Some ''c3''
   \<and> \<not> is_ancestor (fleet (path_join ''/work'' ''D'')) ''c2'' ''c3''
   \<and> fleet (path_join ''/work'' ''D'') (RevListCount ''feature/x'' ''master'') = Inr (line ''1'')
   \<and> parseInt (trim (line ''1'')) = Num 1
   \<and> \<not> isUpToDate (fst (processProject_uptodate fleet ''D'' ''/work'' ''feature/x''
          ''master'' \<lparr>fetch = False, parallel = ''5''\<rparr>))
   \<and> behindCommits (fst (processProject_uptodate fleet ''D'' ''/work'' ''feature/x''
          ''master'' \<lparr>fetch = False, parallel = ''5''\<rparr>)) = 1"
proof -
  let ?o = "\<lparr>fetch = False, parallel = ''5''\<rparr>"
  have h1: "succeeded (fleet (path_join ''/work'' ''D'') (RevParseVerify ''master''))"
    and h2: "succeeded (fleet (path_join ''/work'' ''D'') (RevParseVerify ''feature/x''))"
    by (simp_all add: example_defs)
  have h3: "resolved_commit (fleet (path_join ''/work'' ''D'')) ''master'' = Some ''c2''"
    and h4: "resolved_commit (fleet (path_join ''/work'' ''D'')) ''feature/x'' = Some ''c3''"
    by (simp_all add: example_defs resolved_commit_def resolve_ref_def)
  have h5: "\<not> is_ancestor (fleet (path_join ''/work'' ''D'')) ''c2'' ''c3''"
    by (simp add: example_defs is_ancestor_def)
  have h6: "fleet (path_join ''/work'' ''D'') (RevListCount ''feature/x'' ''master'')
              = Inr (line ''1'') \<and> parseInt (trim (line ''1'')) = Num 1"
    by (simp add: example_defs parseInt_def digits_value_def radix_digit_def digit_value_def)
  note D = uptodate_records_count [where w = fleet and td = "''/work''" and pn = "''D''"
      and bn = "''feature/x''" and bb = "''master''" and cm = "''c2''" and cb = "''c3''"
      and opts = ?o and out = "line ''1''" and k = 1, OF h1 h2 h3 h4 h5]
  have c1: "\<not> isUpToDate (fst (processProject_uptodate fleet ''D'' ''/work'' ''feature/x''
          ''master'' ?o))"
    by (rule D [THEN conjunct1])
  have c2: "behindCommits (fst (processProject_uptodate fleet ''D'' ''/work'' ''feature/x''
          ''master'' ?o)) = 1"
    by (rule D [THEN conjunct2, THEN conjunct2, THEN conjunct2, THEN conjunct2,
                THEN conjunct2, THEN conjunct2, THEN mp, OF h6])
  from h1 h2 h3 h4 h5 h6 c1 c2 show ?thesis by (intro conjI) simp_all
qed

text \<open>
  C1 claims that the count is taken between the resolved names. The job asks for
  \<open>branchName..baseBranch\<close>, the requested names, although it has resolved both. In
  \<open>repoB\<close> the branch exists only as \<open>origin/feature/y\<close>, three commits behind \<open>master\<close>:
  the resolution falls back to \<open>origin/feature/y\<close>, the commit lookup and the ancestry
  test use it, but the count is asked for \<open>feature/y..master\<close>, which Git rejects, and the
  result reports 0 commits where Git counts 3 for the resolved names.
\<close>

theorem remote_only_branch_count_lost:
  "resolve_ref (fleet ''/work/B'') ''feature/y''
     = ((True, ''origin/feature/y''),
        [RevParseVerify ''feature/y'', RevParseVerify ''origin/feature/y''])
   \<and> fleet ''/work/B'' (RevListCount ''origin/feature/y'' ''master'') = Inr (line ''3'')
   \<and> parseInt (trim (line ''3'')) = Num 3
   \<and> processProject_uptodate fleet ''B'' ''/work'' ''feature/y'' ''master''
        \<lparr>fetch = True, parallel = ''5''\<rparr>
     = (\<lparr>name = ''B'', path = ''/work/B'', branchExists = True, masterExists = True,
         error = None, fetchSuccess = True,
         hasMasterChanges = True, isUpToDate = False, behindCommits = 0,
         lastMasterCommit = Some ''c4'', lastBranchCommit = Some ''c1'',
         lastMasterDate = Some ''2024-05-07 09:15:00 +0800'',
         lastBranchDate = Some ''2024-05-01 10:00:00 +0800''\<rparr>,
        [FetchAllPrune, RevParseVerify ''master'', RevParseVerify ''feature/y'',
         RevParseVerify ''origin/feature/y'', RevParse ''master'',
         RevParse ''origin/feature/y'', LogDate ''c4'', LogDate ''c1'',
         MergeBaseIsAncestor ''c4'' ''c1'', RevListCount ''feature/y'' ''master''])"
  by (simp add: job_defs example_defs parseInt_def digits_value_def radix_digit_def
        digit_value_def)

section \<open>Failures inside a job\<close>

lemma resolved_commit_None:
  "(resolved_commit g n = None)
     = (\<not> fst (fst (resolve_ref g n))
        \<or> \<not> succeeded (g (RevParse (snd (fst (resolve_ref g n))))))"
  by (simp add: resolved_commit_def case_prod_beta succeeded_def split: sum.splits)

lemma merged_error_None:
  "(error (fst (processProject_merged w pn td bn bb opts)) = None)
     = (fetch_failure (w (path_join td pn)) opts = None
        \<and> (\<not> fst (fst (resolve_ref (w (path_join td pn)) bn))
           \<or> \<not> fst (fst (resolve_ref (w (path_join td pn)) bb))
           \<or> resolved_commit (w (path_join td pn)) bn \<noteq> None
             \<and> resolved_commit (w (path_join td pn)) bb \<noteq> None))"
  by (auto simp add: merged_error Let_def resolved_commit_None split: sum.splits)

lemma uptodate_error_None:
  "(error (fst (processProject_uptodate w pn td bn bb opts)) = None)
     = (fetch_failure (w (path_join td pn)) opts = None
        \<and> (\<not> fst (fst (resolve_ref (w (path_join td pn)) bn))
           \<or> \<not> fst (fst (resolve_ref (w (path_join td pn)) bb))
           \<or> resolved_commit (w (path_join td pn)) bn \<noteq> None
             \<and> resolved_commit (w (path_join td pn)) bb \<noteq> None))"
  by (auto simp add: uptodate_error Let_def resolved_commit_None split: sum.splits)

lemma fetch_failure_None:
  "(fetch_failure g opts = None) = (\<not> fetch opts \<or> succeeded (g FetchAllPrune))"
  by (simp add: fetch_failure_def succeeded_def split: sum.splits)

text \<open>
  C6, as stated, fails: a command that throws inside a job is caught, but not every
  caught error reaches the \<open>error\<close> field. In \<open>repoG\<close> the ancestry test, the date
  lookups and the count all fail with a fatal error of Git; both jobs return a result
  with a negative verdict and no \<open>error\<close>.
\<close>

theorem swallowed_failure_counterexample:
  "fleet ''/work/G'' (MergeBaseIsAncestor ''c3'' ''c2'') = Inl ''fatal: bad object''
   \<and> processProject_merged fleet ''G'' ''/work'' ''feature/x'' ''master''
        \<lparr>fetch = True, parallel = ''5''\<rparr>
     = (\<lparr>name = ''G'', path = ''/work/G'', branchExists = True, masterExists = True,
         error = None, fetchSuccess = True,
         isMerged = False, mergeCommit = None, mergeDate = None\<rparr>,
        [FetchAllPrune, RevParseVerify ''master'', RevParseVerify ''feature/x'',
         RevParse ''feature/x'', RevParse ''master'', MergeBaseIsAncestor ''c3'' ''c2''])
   \<and> fleet ''/work/G'' (MergeBaseIsAncestor ''c2'' ''c3'') = Inl ''fatal: bad object''
   \<and> fleet ''/work/G'' (RevListCount ''feature/x'' ''master'') = Inl ''fatal: bad object''
   \<and> processProject_uptodate fleet ''G'' ''/work'' ''feature/x'' ''master''
        \<lparr>fetch = True, parallel = ''5''\<rparr>
     = (\<lparr>name = ''G'', path = ''/work/G'', branchExists = True, masterExists = True,
         error = None, fetchSuccess = True,
         hasMasterChanges = True, isUpToDate = False, behindCommits = 0,
         lastMasterCommit = Some ''c2'', lastBranchCommit = Some ''c3'',
         lastMasterDate = None, lastBranchDate = None\<rparr>,
        [FetchAllPrune, RevParseVerify ''master'', RevParseVerify ''feature/x'',
         RevParse ''master'', RevParse ''feature/x'', LogDate ''c2'', LogDate ''c3'',
         MergeBaseIsAncestor ''c2'' ''c3'', RevListCount ''feature/x'' ''master''])"
  by (simp add: job_defs example_defs)

text \<open>
  C6, amended. Every failing command of a job is caught: with a positive \<open>parallel\<close>
  both commands end and emit the result of every discovered project, in order, whatever
  fails in any job, and the result of a project depends on its own working copy only.
  The \<open>error\<close> field is set exactly when the fetch failed, or both names exist and the
  commit of one of them could not be read; a failing existence check, ancestry test,
  date lookup, merge commit search or count leaves \<open>error\<close> unset.
\<close>

theorem job_failures_contained:
  assumes "parseInt (parallel opts) = Num p" and "0 < p"
  shows "(\<exists>st. mergedCommand w td dirs bn bb opts = Some st
            \<and> results st = map (\<lambda>d. fst (processProject_merged w d td bn bb opts)) dirs)
       \<and> (\<exists>st. uptodateCommand w td dirs bn bb opts = Some st
            \<and> results st = map (\<lambda>d. fst (processProject_uptodate w d td bn bb opts)) dirs)
       \<and> (w' (path_join td pn) = w (path_join td pn) \<longrightarrow>
            processProject_merged w' pn td bn bb opts
              = processProject_merged w pn td bn bb opts
          \<and> processProject_uptodate w' pn td bn bb opts
              = processProject_uptodate w pn td bn bb opts)
       \<and> (error (fst (processProject_merged w pn td bn bb opts)) = None)
           = ((\<not> fetch opts \<or> succeeded (w (path_join td pn) FetchAllPrune))
              \<and> (\<not> branchExists (fst (processProject_merged w pn td bn bb opts))
                 \<or> \<not> masterExists (fst (processProject_merged w pn td bn bb opts))
                 \<or> resolved_commit (w (path_join td pn)) bn \<noteq> None
                   \<and> resolved_commit (w (path_join td pn)) bb \<noteq> None))
       \<and> (error (fst (processProject_uptodate w pn td bn bb opts)) = None)
           = ((\<not> fetch opts \<or> succeeded (w (path_join td pn) FetchAllPrune))
              \<and> (\<not> branchExists (fst (processProject_uptodate w pn td bn bb opts))
                 \<or> \<not> masterExists (fst (processProject_uptodate w pn td bn bb opts))
                 \<or> resolved_commit (w (path_join td pn)) bn \<noteq> None
                   \<and> resolved_commit (w (path_join td pn)) bb \<noteq> None))"
proof -
  let ?m = "\<lambda>d. fst (processProject_merged w d td bn bb opts)"
  let ?u = "\<lambda>d. fst (processProject_uptodate w d td bn bb opts)"
  from run_waves_total [OF assms, of ?m dirs]
  obtain sm where "run_waves ?m opts dirs = Some sm" "results sm = map ?m dirs"
    by blast
  then have m: "\<exists>st. mergedCommand w td dirs bn bb opts = Some st
      \<and> results st = map ?m dirs"
    by (simp add: mergedCommand_def)
  from run_waves_total [OF assms, of ?u dirs]
  obtain su where "run_waves ?u opts dirs = Some su" "results su = map ?u dirs"
    by blast
  then have u: "\<exists>st. uptodateCommand w td dirs bn bb opts = Some st
      \<and> results st = map ?u dirs"
    by (simp add: uptodateCommand_def)
  have own: "processProject_merged w' pn td bn bb opts
              = processProject_merged w pn td bn bb opts
          \<and> processProject_uptodate w' pn td bn bb opts
              = processProject_uptodate w pn td bn bb opts"
    if "w' (path_join td pn) = w (path_join td pn)"
    by (simp only: processProject_merged_def processProject_uptodate_def Let_def that)
  have em: "(error (fst (processProject_merged w pn td bn bb opts)) = None)
           = ((\<not> fetch opts \<or> succeeded (w (path_join td pn) FetchAllPrune))
              \<and> (\<not> branchExists (fst (processProject_merged w pn td bn bb opts))
                 \<or> \<not> masterExists (fst (processProject_merged w pn td bn bb opts))
                 \<or> resolved_commit (w (path_join td pn)) bn \<noteq> None
                   \<and> resolved_commit (w (path_join td pn)) bb \<noteq> None))"
    by (simp only: merged_error_None merged_exists fetch_failure_None)
  have eu: "(error (fst (processProject_uptodate w pn td bn bb opts)) = None)
           = ((\<not> fetch opts \<or> succeeded (w (path_join td pn) FetchAllPrune))
              \<and> (\<not> branchExists (fst (processProject_uptodate w pn td bn bb opts))
                 \<or> \<not> masterExists (fst (processProject_uptodate w pn td bn bb opts))
                 \<or> resolved_commit (w (path_join td pn)) bn \<noteq> None
                   \<and> resolved_commit (w (path_join td pn)) bb \<noteq> None))"
    by (simp only: uptodate_error_None uptodate_exists fetch_failure_None)
  from m u own em eu show ?thesis by blast
qed

theorem job_failures_contained_witness:
  "parseInt (parallel \<lparr>fetch = True, parallel = ''3''\<rparr>) = Num 3 \<and> (0 :: int) < 3
   \<and> (\<exists>st. mergedCommand fleet ''/work'' [''A'', ''E'', ''G'', ''D''] ''feature/x'' ''master''
              \<lparr>fetch = True, parallel = ''3''\<rparr> = Some st
          \<and> results st = map (\<lambda>d. fst (processProject_merged fleet d ''/work'' ''feature/x''
                 ''master'' \<lparr>fetch = True, parallel = ''3''\<rparr>)) [''A'', ''E'', ''G'', ''D''])
   \<and> (\<exists>st. uptodateCommand fleet ''/work'' [''A'', ''E'', ''G'', ''D''] ''feature/x'' ''master''
              \<lparr>fetch = True, parallel = ''3''\<rparr> = Some st
          \<and> results st = map (\<lambda>d. fst (processProject_uptodate fleet d ''/work'' ''feature/x''
                 ''master'' \<lparr>fetch = True, parallel = ''3''\<rparr>)) [''A'', ''E'', ''G'', ''D''])
   \<and> (fleet(''/work/E'' := repoC)) (path_join ''/work'' ''G'') = fleet (path_join ''/work'' ''G'')
   \<and> processProject_merged (fleet(''/work/E'' := repoC)) ''G'' ''/work'' ''feature/x''
        ''master'' \<lparr>fetch = True, parallel = ''3''\<rparr>
      = processProject_merged fleet ''G'' ''/work'' ''feature/x''
        ''master'' \<lparr>fetch = True, parallel = ''3''\<rparr>
   \<and> processProject_uptodate (fleet(''/work/E'' := repoC)) ''G'' ''/work'' ''feature/x''
        ''master'' \<lparr>fetch = True, parallel = ''3''\<rparr>
      = processProject_uptodate fleet ''G'' ''/work'' ''feature/x''
        ''master'' \<lparr>fetch = True, parallel = ''3''\<rparr>
   \<and> succeeded (fleet (path_join ''/work'' ''G'') FetchAllPrune)
   \<and> resolved_commit (fleet (path_join ''/work'' ''G'')) ''feature/x'' \<noteq> None
   \<and> resolved_commit (fleet (path_join ''/work'' ''G'')) ''master'' \<noteq> None
   \<and> error (fst (processProject_merged fleet ''G'' ''/work'' ''feature/x''
        ''master'' \<lparr>fetch = True, parallel = ''3''\<rparr>)) = None
   \<and> error (fst (processProject_uptodate fleet ''G'' ''/work'' ''feature/x''
        ''master'' \<lparr>fetch = True, parallel = ''3''\<rparr>)) = None"
proof -
  let ?o = "\<lparr>fetch = True, parallel = ''3''\<rparr>"
  have par: "parseInt (parallel ?o) = Num 3"
    by (simp add: parseInt_def digits_value_def radix_digit_def digit_value_def is_space_def)
  have pos: "(0 :: int) < 3" by simp
  note T = job_failures_contained [OF par pos, where w = fleet and td = "''/work''"
      and dirs = "[''A'', ''E'', ''G'', ''D'']" and bn = "''feature/x''" and bb = "''master''"
      and pn = "''G''" and w' = "fleet(''/work/E'' := repoC)"]
  have same: "(fleet(''/work/E'' := repoC)) (path_join ''/work'' ''G'')
                = fleet (path_join ''/work'' ''G'')"
    by (simp add: path_join_def)
  have f: "succeeded (fleet (path_join ''/work'' ''G'') FetchAllPrune)"
    by (simp add: example_defs)
  have rb: "resolved_commit (fleet (path_join ''/work'' ''G'')) ''feature/x'' \<noteq> None"
    and rm: "resolved_commit (fleet (path_join ''/work'' ''G'')) ''master'' \<noteq> None"
    by (simp_all add: example_defs resolved_commit_def resolve_ref_def)
  have own: "processProject_merged (fleet(''/work/E'' := repoC)) ''G'' ''/work'' ''feature/x''
        ''master'' ?o
      = processProject_merged fleet ''G'' ''/work'' ''feature/x'' ''master'' ?o
   \<and> processProject_uptodate (fleet(''/work/E'' := repoC)) ''G'' ''/work'' ''feature/x''
        ''master'' ?o
      = processProject_uptodate fleet ''G'' ''/work'' ''feature/x'' ''master'' ?o"
    by (rule T [THEN conjunct2, THEN conjunct2, THEN conjunct1, THEN mp, OF same])
  have em: "error (fst (processProject_merged fleet ''G'' ''/work'' ''feature/x''
        ''master'' ?o)) = None"
    using T [THEN conjunct2, THEN conjunct2, THEN conjunct2, THEN conjunct1] f rb rm
    by simp
  have eu: "error (fst (processProject_uptodate fleet ''G'' ''/work'' ''feature/x''
        ''master'' ?o)) = None"
    using T [THEN conjunct2, THEN conjunct2, THEN conjunct2, THEN conjunct2] f rb rm
    by simp
  from par pos T [THEN conjunct1] T [THEN conjunct2, THEN conjunct1] same own f rb rm em eu
  show ?thesis by (intro conjI) simp_all
qed

end
